theory Spec2Isabelle
  imports Complex_Main
begin

section \<open>The cupSODA simulator adapter of PySB (pysb/simulator/cupsoda.py)\<close>

text \<open>
  The module is Python 2 code (it writes \<open>str\<close> values to files opened in binary
  mode, and its sibling \<open>pysb/integrate.py\<close> uses the \<open>exec ... in\<close> statement),
  so \<open>/\<close> between two integers is floor division and \<open>str\<close> is a byte string.
  Floating-point numbers are modelled by the reals: arithmetic is exact.
\<close>

subsection \<open>Exceptions\<close>

text \<open>
  Every exception the module can raise is a value. \<open>SimulatorException\<close> is the
  only exception class the module raises by name; \<open>PyException\<close> is a plain
  \<open>raise Exception(...)\<close>; the others are raised by the interpreter.
\<close>

datatype error =
    SimulatorException string
  | PyException string
  | ValueError
  | IndexError
  | KeyError
  | ZeroDivisionError
  | UnboundLocalError
  | AttributeError
  | IOError

definition bind_e :: "error + 'a \<Rightarrow> ('a \<Rightarrow> error + 'b) \<Rightarrow> error + 'b" where
  "bind_e m f = (case m of Inl e \<Rightarrow> Inl e | Inr x \<Rightarrow> f x)"

text \<open>A \<open>for\<close> loop whose body may raise: the first exception ends the loop.\<close>

fun fold_e :: "('a \<Rightarrow> 's \<Rightarrow> error + 's) \<Rightarrow> 'a list \<Rightarrow> 's \<Rightarrow> error + 's" where
  "fold_e f [] s = Inr s"
| "fold_e f (x # xs) s = (case f x s of Inl e \<Rightarrow> Inl e | Inr s' \<Rightarrow> fold_e f xs s')"

text \<open>Indexing a Python list or array with a non-negative index.\<close>

definition nth_e :: "'a list \<Rightarrow> nat \<Rightarrow> error + 'a" where
  "nth_e xs i = (if i < length xs then Inr (xs ! i) else Inl IndexError)"

subsection \<open>Text helpers\<close>

text \<open>\<open>str(n)\<close> for a non-negative and for an arbitrary Python integer.\<close>

definition digit_char :: "nat \<Rightarrow> char" where
  "digit_char d = ''0123456789'' ! d"

fun str_nat :: "nat \<Rightarrow> string" where
  "str_nat n = (if n < 10 then [digit_char n] else str_nat (n div 10) @ [digit_char (n mod 10)])"

declare str_nat.simps [simp del]

definition str_int :: "int \<Rightarrow> string" where
  "str_int i = (if i < 0 then CHR ''-'' # str_nat (nat (- i)) else str_nat (nat i))"

text \<open>\<open>sep.join(xs)\<close>: the rows of a file with no separator after the last one.\<close>

fun join :: "string \<Rightarrow> string list \<Rightarrow> string" where
  "join sep [] = []"
| "join sep [x] = x"
| "join sep (x # y # ys) = x @ sep @ join sep (y # ys)"

text \<open>\<open>os.path.join(a, b)\<close> of \<open>posixpath\<close>, for a relative second component.\<close>

definition path_join :: "string \<Rightarrow> string \<Rightarrow> string" where
  "path_join a b = (if a = [] \<or> last a = CHR ''/'' then a @ b else a @ ''/'' @ b)"

text \<open>\<open>needle in haystack\<close> for strings.\<close>

fun starts_with :: "string \<Rightarrow> string \<Rightarrow> bool" where
  "starts_with [] s = True"
| "starts_with (p # ps) [] = False"
| "starts_with (p # ps) (c # cs) = (p = c \<and> starts_with ps cs)"

fun contains :: "string \<Rightarrow> string \<Rightarrow> bool" where
  "contains needle [] = (needle = [])"
| "contains needle (c # cs) = (starts_with needle (c # cs) \<or> contains needle cs)"

subsection \<open>Binary discovery: \<open>set_cupsoda_path\<close> and \<open>_get_cupsoda_path\<close>\<close>

text \<open>
  What the two functions read from the operating system: \<open>os.access(p, os.F_OK)\<close>,
  \<open>os.access(p, os.X_OK)\<close>, \<open>os.path.isfile(p)\<close>, \<open>os.path.abspath(p)\<close> and
  \<open>os.environ\<close>.
\<close>

record os_env =
  access_F_OK :: "string \<Rightarrow> bool"
  access_X_OK :: "string \<Rightarrow> bool"
  isfile :: "string \<Rightarrow> bool"
  abspath :: "string \<Rightarrow> string"
  environ :: "string \<Rightarrow> string option"

text \<open>
  The module global \<open>_cupsoda_path\<close> is passed in and returned. \<open>set_cupsoda_path\<close>
  assigns it before it checks the file, so the assignment survives a raise.
\<close>

definition set_cupsoda_path :: "os_env \<Rightarrow> string \<Rightarrow> (error + unit) \<times> string option" where
  "set_cupsoda_path os directory =
     (let cupsoda_path = path_join directory ''cupSODA'' in
      (if \<not> access_F_OK os cupsoda_path \<or> \<not> isfile os cupsoda_path then
         Inl (SimulatorException
                (''Could not find cupSODA binary in '' @ abspath os directory @ ''.''))
       else if \<not> access_X_OK os cupsoda_path then
         Inl (SimulatorException
                (''cupSODA binary in '' @ abspath os directory @
                 '' does not have executable permissions.''))
       else Inr (),
       Some cupsoda_path))"

definition path_var :: string where
  "path_var = ''CUPSODAPATH''"

definition bin_dirs :: "string list" where
  "bin_dirs = [''/usr/local/share/cupSODA'', ''c:/Program Files/cupSODA'']"

text \<open>\<open>_check_bin_dir\<close>: the path of the executable, or \<open>False\<close> (here \<open>None\<close>).\<close>

definition check_bin_dir :: "os_env \<Rightarrow> string \<Rightarrow> string option" where
  "check_bin_dir os bin_dir =
     (let bin_path = path_join bin_dir ''cupSODA'' in
      if access_F_OK os bin_path then Some bin_path else None)"

definition env_not_found_msg :: string where
  "env_not_found_msg =
     ''Environment variable '' @ path_var @ '' is set but the path could'' @
     '' not be found, is not accessible or does not '' @
     ''contain a cupSODA executable file.''"

definition std_not_found_msg :: string where
  "std_not_found_msg =
     ''Could not find cupSODA installed in one of '' @
     ''the following locations:'' @
     concat (map (\<lambda>x. [CHR 0x0A] @ ''    '' @ x) bin_dirs) @
     [CHR 0x0A] @ ''Please put the executable (or a link to '' @
     ''it) in one of these locations or set the '' @
     ''path using set_cupsoda_path().''"

text \<open>
  The loop over the standard locations. The \<open>else: raise\<close> belongs to the \<open>if\<close> in
  the loop body, so the first location that has no executable raises and the rest of the
  list is never visited. A loop over an empty list would leave \<open>bin_path\<close> unbound.
\<close>

fun search_bin_dirs :: "os_env \<Rightarrow> string list \<Rightarrow> error + string" where
  "search_bin_dirs os [] = Inl UnboundLocalError"
| "search_bin_dirs os (b # bs) =
     (case check_bin_dir os b of
        Some bin_path \<Rightarrow> Inr bin_path
      | None \<Rightarrow> Inl (SimulatorException std_not_found_msg))"

text \<open>\<open>if _cupsoda_path:\<close> is true for a non-empty string.\<close>

definition cached_path :: "string option \<Rightarrow> string option" where
  "cached_path g = (case g of None \<Rightarrow> None | Some p \<Rightarrow> if p = [] then None else Some p)"

definition get_cupsoda_path :: "os_env \<Rightarrow> string option \<Rightarrow> (error + string) \<times> string option" where
  "get_cupsoda_path os g =
     (case cached_path g of
        Some p \<Rightarrow> (Inr p, g)
      | None \<Rightarrow>
          (case (case environ os path_var of
                   Some d \<Rightarrow>
                     (case check_bin_dir os d of
                        None \<Rightarrow> Inl (SimulatorException env_not_found_msg)
                      | Some bin_path \<Rightarrow> Inr bin_path)
                 | None \<Rightarrow> search_bin_dirs os bin_dirs) of
             Inl e \<Rightarrow> (Inl e, g)
           | Inr bin_path \<Rightarrow> (Inr bin_path, Some bin_path)))"

subsection \<open>The block planner: \<open>_get_nblocks\<close>\<close>

text \<open>
  \<open>use_pycuda\<close> and the two device attributes the planner reads are one optional
  record: \<open>None\<close> when \<open>pycuda\<close> could not be imported.
\<close>

record device_attributes =
  MAX_SHARED_MEMORY_PER_BLOCK :: nat
  MAX_THREADS_PER_BLOCK :: nat

definition threads_per_block :: "device_attributes option \<Rightarrow> nat \<Rightarrow> int" where
  "threads_per_block dev n_species =
     (let default_threads_per_block = 32;
          bytes_per_float = 4;
          memory_per_thread = (int n_species + 1) * bytes_per_float
      in case dev of
           None \<Rightarrow> default_threads_per_block
         | Some attrs \<Rightarrow>
             (let shared_memory_per_block = int (MAX_SHARED_MEMORY_PER_BLOCK attrs);
                  upper_limit_threads_per_block = int (MAX_THREADS_PER_BLOCK attrs);
                  max_threads_per_block =
                    min (shared_memory_per_block div memory_per_thread)
                        upper_limit_threads_per_block
              in min max_threads_per_block default_threads_per_block))"

text \<open>
  \<open>int(np.ceil(1. * n_sims / threads_per_block))\<close>: a float division, which raises
  \<open>ZeroDivisionError\<close> for a zero divisor.
\<close>

definition get_nblocks ::
  "int option \<Rightarrow> device_attributes option \<Rightarrow> nat \<Rightarrow> nat \<Rightarrow> error + int" where
  "get_nblocks opt_n_blocks dev n_species n_simulations =
     (case opt_n_blocks of
        Some n_blocks \<Rightarrow> Inr n_blocks
      | None \<Rightarrow>
          (let tpb = threads_per_block dev n_species in
           if tpb = 0 then Inl ZeroDivisionError
           else Inr \<lceil>1 * real n_simulations / real_of_int tpb\<rceil>))"

subsection \<open>Binary discovery as the specification words it\<close>

text \<open>
  The specification's chain: the explicitly set path, then the environment variable,
  then each standard location in turn; the first source that is an executable, readable
  file is the result, and the search fails exactly when there is none. This definition
  follows the specification, not the code; it is what \<open>get_cupsoda_path\<close> is compared
  with.
\<close>

definition usable_binary :: "os_env \<Rightarrow> string \<Rightarrow> bool" where
  "usable_binary os p = (access_F_OK os p \<and> isfile os p \<and> access_X_OK os p)"

definition claimed_sources :: "os_env \<Rightarrow> string option \<Rightarrow> string list" where
  "claimed_sources os g =
     (case g of None \<Rightarrow> [] | Some p \<Rightarrow> [p]) @
     (case environ os path_var of None \<Rightarrow> [] | Some d \<Rightarrow> [path_join d ''cupSODA'']) @
     map (\<lambda>b. path_join b ''cupSODA'') bin_dirs"

definition claimed_cupsoda_path :: "os_env \<Rightarrow> string option \<Rightarrow> string option" where
  "claimed_cupsoda_path os g = find (usable_binary os) (claimed_sources os g)"

text \<open>
  A machine with the solver installed in the first standard location only, and one
  where \<open>CUPSODAPATH\<close> names a directory without it.
\<close>

definition standard_install :: os_env where
  "standard_install =
     \<lparr>access_F_OK = (\<lambda>p. p = ''/usr/local/share/cupSODA/cupSODA''),
      access_X_OK = (\<lambda>p. p = ''/usr/local/share/cupSODA/cupSODA''),
      isfile = (\<lambda>p. p = ''/usr/local/share/cupSODA/cupSODA''),
      abspath = (\<lambda>p. p),
      environ = (\<lambda>k. None)\<rparr>"

definition stale_variable :: os_env where
  "stale_variable = standard_install\<lparr>environ := (\<lambda>k. if k = ''CUPSODAPATH'' then Some ''/opt'' else None)\<rparr>"

text \<open>
  A machine with the solver installed both in the directory \<open>CUPSODAPATH\<close> names and in
  the first standard location.
\<close>

definition both_installed :: os_env where
  "both_installed =
     \<lparr>access_F_OK = (\<lambda>p. p = ''/usr/local/share/cupSODA/cupSODA'' \<or> p = ''/opt/cupSODA''),
      access_X_OK = (\<lambda>p. p = ''/usr/local/share/cupSODA/cupSODA'' \<or> p = ''/opt/cupSODA''),
      isfile = (\<lambda>p. p = ''/usr/local/share/cupSODA/cupSODA'' \<or> p = ''/opt/cupSODA''),
      abspath = (\<lambda>p. p),
      environ = (\<lambda>k. if k = ''CUPSODAPATH'' then Some ''/opt'' else None)\<rparr>"

subsection \<open>The model, the simulator and the Python library\<close>

text \<open>
  The reaction network the simulator reads from \<open>pysb.Model\<close>, after
  \<open>generate_equations\<close>: a species is its \<open>str()\<close>, a reaction has the indices of its
  reactants and products and the \<open>str()\<close> of every argument of its rate expression, a
  parameter is its name, \<open>parameters_rules\<close> holds the names \<open>model.parameters_rules()\<close>
  returns, and an observable is its list of species indices.
\<close>

record reaction =
  reactants :: "nat list"
  products :: "nat list"
  rate_args :: "string list"

record model =
  species :: "string list"
  reactions :: "reaction list"
  parameters :: "string list"
  parameters_rules :: "string list"
  observables :: "nat list list"

text \<open>
  The fields of \<open>CupSodaSimulator\<close> after \<open>__init__\<close> and the base class's \<open>run\<close>.
  The integrator options are the entries of \<open>self.opts\<close>.
\<close>

record simulator =
  model :: model
  tspan :: "real list"
  initials :: "real list list"
  param_values :: "real list list"
  verbose :: bool
  gpu :: int
  vol :: "real option"
  obs_species_only :: bool
  cleanup :: bool
  prefix :: string
  max_steps :: int
  atol :: real
  rtol :: real
  n_blocks :: "int option"
  memory_usage :: string

definition len_species :: "simulator \<Rightarrow> nat" where
  "len_species s = length (species (model s))"

definition len_rxns :: "simulator \<Rightarrow> nat" where
  "len_rxns s = length (reactions (model s))"

definition len_tspan :: "simulator \<Rightarrow> nat" where
  "len_tspan s = length (tspan s)"

text \<open>
  The functions of Python's library whose text format the module relies on:
  \<open>float(x)\<close> of a string (\<open>None\<close> when it raises \<open>ValueError\<close>), \<open>str(x)\<close> of a
  float, and \<open>re.match(pattern, string)\<close> for the run prefix.
\<close>

record python =
  float_of_str :: "string \<Rightarrow> real option"
  str_of_float :: "real \<Rightarrow> string"
  re_match :: "string \<Rightarrow> string \<Rightarrow> bool"

text \<open>\<open>scipy.constants.N_A\<close>, in 1/mol.\<close>

definition N_A :: real where
  "N_A = 602214076 * 10 ^ 15"

text \<open>
  \<open>if self.vol:\<close> holds for a volume that is neither \<open>None\<close> nor zero; the scale is
  then \<open>N_A * self.vol\<close>.
\<close>

definition vol_scale :: "simulator \<Rightarrow> real option" where
  "vol_scale s = (case vol s of None \<Rightarrow> None | Some v \<Rightarrow> if v \<noteq> 0 then Some (N_A * v) else None)"

fun map_e :: "('a \<Rightarrow> error + 'b) \<Rightarrow> 'a list \<Rightarrow> error + 'b list" where
  "map_e f [] = Inr []"
| "map_e f (x # xs) =
     (case f x of
        Inl e \<Rightarrow> Inl e
      | Inr y \<Rightarrow> (case map_e f xs of Inl e \<Rightarrow> Inl e | Inr ys \<Rightarrow> Inr (y # ys)))"

subsection \<open>The rate-matrix compiler: \<open>_get_cmatrix\<close>\<close>

text \<open>\<open>re.match("_*s", x)\<close>: any number of underscores, then the letter s.\<close>

fun match_underscores_s :: "string \<Rightarrow> bool" where
  "match_underscores_s [] = False"
| "match_underscores_s (c # cs) =
     (if c = CHR ''_'' then match_underscores_s cs else c = CHR ''s'')"

definition rate_mask :: "model \<Rightarrow> bool list" where
  "rate_mask m = map (\<lambda>p. p \<in> set (parameters_rules m)) (parameters m)"

text \<open>\<open>row[rate_mask]\<close>: a boolean mask of another length raises \<open>IndexError\<close>.\<close>

definition mask_columns :: "bool list \<Rightarrow> real list \<Rightarrow> error + real list" where
  "mask_columns flags row =
     (if length row = length flags then Inr (map fst (filter snd (zip row flags)))
      else Inl IndexError)"

text \<open>\<open>{par_names[i]: i for i in range(len(par_names))}\<close>\<close>

definition par_dict :: "string list \<Rightarrow> string \<Rightarrow> nat option" where
  "par_dict par_names =
     fold (\<lambda>i d. d(par_names ! i \<mapsto> i)) [0..<length par_names] Map.empty"

text \<open>The filter of the rate arguments and the count of the reactants of one reaction.\<close>

definition kept_rate_args :: "reaction \<Rightarrow> string list" where
  "kept_rate_args rxn = filter (\<lambda>arg. \<not> match_underscores_s arg) (rate_args rxn)"

definition count_reactants :: "model \<Rightarrow> reaction \<Rightarrow> error + int" where
  "count_reactants m rxn =
     fold_e (\<lambda>i n. case nth_e (species m) i of
                      Inl e \<Rightarrow> Inl e
                    | Inr sp \<Rightarrow> Inr (if \<not> sp = ''__source()'' then n + 1 else n))
       (reactants rxn) 0"

text \<open>The loop \<open>for r in rate_args[j]\<close>, from \<open>rate = 1.0\<close>.\<close>

definition rate_step ::
  "python \<Rightarrow> string list \<Rightarrow> real list \<Rightarrow> string \<Rightarrow> real \<Rightarrow> error + real" where
  "rate_step py par_names row x rate =
     (if x \<in> set par_names then
        (case par_dict par_names x of
           None \<Rightarrow> Inl KeyError
         | Some k \<Rightarrow> (case nth_e row k of Inl e \<Rightarrow> Inl e | Inr v \<Rightarrow> Inr (rate * v)))
      else
        (case float_of_str py x of None \<Rightarrow> Inl ValueError | Some f \<Rightarrow> Inr (rate * f)))"

definition cmatrix_cell ::
  "python \<Rightarrow> simulator \<Rightarrow> real list \<Rightarrow> string list \<Rightarrow> int \<Rightarrow> error + real" where
  "cmatrix_cell py s row args order =
     (case fold_e (rate_step py (parameters_rules (model s)) row) args 1 of
        Inl e \<Rightarrow> Inl e
      | Inr rate \<Rightarrow>
          Inr (case vol_scale s of
                 None \<Rightarrow> rate
               | Some nv \<Rightarrow> rate * nv powi (order - 1)))"

definition get_cmatrix :: "python \<Rightarrow> simulator \<Rightarrow> error + real list list" where
  "get_cmatrix py s =
     (case map_e (mask_columns (rate_mask (model s))) (param_values s) of
        Inl e \<Rightarrow> Inl e
      | Inr par_vals \<Rightarrow>
          (case map_e (\<lambda>rxn. case count_reactants (model s) rxn of
                               Inl e \<Rightarrow> Inl e
                             | Inr n \<Rightarrow> Inr (kept_rate_args rxn, n))
                  (reactions (model s)) of
             Inl e \<Rightarrow> Inl e
           | Inr rxn_info \<Rightarrow>
               map_e (\<lambda>i. map_e (\<lambda>j. cmatrix_cell py s (par_vals ! i)
                                        (fst (rxn_info ! j)) (snd (rxn_info ! j)))
                             [0..<len_rxns s])
                 [0..<length par_vals]))"

text \<open>
  The rate matrix as the specification words it. The arguments of a rate expression are
  names of parameters, literals, and the placeholders of the species populations, which
  \<open>pysb\<close> names \<open>__s0\<close>, \<open>__s1\<close>, ... (\<open>pysb/integrate.py\<close> builds them with
  \<open>'__s%d' % i\<close> and recognises them by \<open>s(\d+)\<close>). A cell is the product of the values
  of the arguments that are not placeholders, each the value of the named parameter in
  the parameter row or the literal, times \<open>N_A * vol\<close> to the power of the number of
  reactants that are not the source pseudo-species, minus one. These definitions follow
  the specification, not the code; they are what \<open>get_cmatrix\<close> is compared with.
\<close>

definition is_digit :: "char \<Rightarrow> bool" where
  "is_digit c = (c \<in> set ''0123456789'')"

definition species_placeholder :: "string \<Rightarrow> bool" where
  "species_placeholder x =
     (case dropWhile (\<lambda>c. c = CHR ''_'') x of
        [] \<Rightarrow> False
      | c # ds \<Rightarrow> c = CHR ''s'' \<and> ds \<noteq> [] \<and> list_all is_digit ds)"

definition parameter_value :: "simulator \<Rightarrow> nat \<Rightarrow> string \<Rightarrow> real option" where
  "parameter_value s i x = map_of (zip (parameters (model s)) (param_values s ! i)) x"

definition claimed_rate_factor :: "python \<Rightarrow> simulator \<Rightarrow> nat \<Rightarrow> string \<Rightarrow> real option" where
  "claimed_rate_factor py s i x =
     (if x \<in> set (parameters (model s)) then parameter_value s i x else float_of_str py x)"

definition reactant_count :: "model \<Rightarrow> nat \<Rightarrow> nat" where
  "reactant_count m j =
     length (filter (\<lambda>k. species m ! k \<noteq> ''__source()'') (reactants (reactions m ! j)))"

definition claimed_cell :: "python \<Rightarrow> simulator \<Rightarrow> real \<Rightarrow> nat \<Rightarrow> nat \<Rightarrow> real option" where
  "claimed_cell py s v i j =
     (case those (map (claimed_rate_factor py s i)
                   (filter (\<lambda>x. \<not> species_placeholder x) (rate_args (reactions (model s) ! j)))) of
        None \<Rightarrow> None
      | Some vals \<Rightarrow> Some (prod_list vals * (N_A * v) powi (int (reactant_count (model s) j) - 1)))"

subsection \<open>A small network\<close>

text \<open>
  Three species, the first of them the source pseudo-species; a binding reaction with
  mass-action rate \<open>kf*sigma*__s1*__s2\<close> and a synthesis from the source with rate
  \<open>2.5*__s0\<close>; one parameter row; volume 2.
\<close>

definition example_model :: model where
  "example_model =
     \<lparr>species = [''__source()'', ''A()'', ''B()''],
      reactions =
        [\<lparr>reactants = [1, 2], products = [2], rate_args = [''kf'', ''sigma'', ''__s1'', ''__s2'']\<rparr>,
         \<lparr>reactants = [0], products = [0, 1], rate_args = [''2.5'', ''__s0'']\<rparr>],
      parameters = [''kf'', ''sigma'', ''A_0''],
      parameters_rules = [''kf'', ''sigma''],
      observables = [[1]]\<rparr>"

definition example_sim :: simulator where
  "example_sim =
     \<lparr>model = example_model, tspan = [0, 1], initials = [[5, 8, 0]],
      param_values = [[3, 7, 100]], verbose = False, gpu = 0, vol = Some 2,
      obs_species_only = True, cleanup = True, prefix = ''example'',
      max_steps = 20000, atol = 1 / 10 ^ 8, rtol = 1 / 10 ^ 8, n_blocks = None,
      memory_usage = ''sharedconstant''\<rparr>"

definition example_python :: python where
  "example_python =
     \<lparr>float_of_str = (\<lambda>x. if x = ''2.5'' then Some (5 / 2) else None),
      str_of_float = (\<lambda>x. if x = 0 then ''0.0'' else if x = 1 then ''1.0''
                           else if x = 1 / 10 ^ 8 then ''1e-08'' else ''?''),
      re_match = starts_with\<rparr>"


text \<open>
  A network with four rate constants: binding of A and B with \<open>kf\<close>, removal of B with
  \<open>sink\<close>, synthesis of A from the source with the literal 2.5, and conversion of B to A
  with \<open>kr\<close>. The parameter row gives \<open>A_0 = 100\<close>, \<open>kf = 3\<close>, \<open>sink = 7\<close> and
  \<open>kr = 11\<close>; the volume is 2.
\<close>

definition rate_network :: model where
  "rate_network =
     \<lparr>species = [''__source()'', ''A()'', ''B()''],
      reactions =
        [\<lparr>reactants = [1, 2], products = [], rate_args = [''kf'', ''__s1'', ''__s2'']\<rparr>,
         \<lparr>reactants = [2], products = [], rate_args = [''sink'', ''__s2'']\<rparr>,
         \<lparr>reactants = [0], products = [0, 1], rate_args = [''2.5'', ''__s0'']\<rparr>,
         \<lparr>reactants = [2], products = [1], rate_args = [''kr'', ''__s2'']\<rparr>],
      parameters = [''A_0'', ''kf'', ''sink'', ''kr''],
      parameters_rules = [''kf'', ''sink'', ''kr''],
      observables = [[1]]\<rparr>"

definition rate_sim :: simulator where
  "rate_sim = example_sim\<lparr>model := rate_network, param_values := [[100, 3, 7, 11]]\<rparr>"

subsection \<open>The input-file encoder: \<open>_create_input_files\<close>\<close>

definition newline :: string where
  "newline = [CHR 0x0A]"

definition tab :: string where
  "tab = [CHR 0x09]"

text \<open>The number of simulations, \<open>len(self.param_values)\<close>.\<close>

definition n_sims :: "simulator \<Rightarrow> nat" where
  "n_sims s = length (param_values s)"

text \<open>
  \<open>atol_vector\<close>: the tolerance once per species, a newline after each but the last.
\<close>

definition write_atol_vector :: "python \<Rightarrow> simulator \<Rightarrow> string" where
  "write_atol_vector py s =
     fold (\<lambda>i file.
             let file = file @ str_of_float py (atol s)
             in if int i < int (len_species s) - 1 then file @ newline else file)
       [0..<len_species s] []"

text \<open>
  \<open>c_matrix\<close> and \<open>MX_0\<close> are written by the same pair of loops: one line per
  simulation, its cells \<open>str(m[i][j])\<close> with a tab before each but the first, a newline
  after each line but the last. Reading a cell outside the matrix raises.
\<close>

definition write_matrix_line :: "python \<Rightarrow> real list list \<Rightarrow> nat \<Rightarrow> nat \<Rightarrow> error + string" where
  "write_matrix_line py m n_cols i =
     fold_e (\<lambda>j line.
               case nth_e m i of
                 Inl e \<Rightarrow> Inl e
               | Inr row \<Rightarrow>
                   (case nth_e row j of
                      Inl e \<Rightarrow> Inl e
                    | Inr x \<Rightarrow> Inr ((if j > 0 then line @ tab else line) @ str_of_float py x)))
       [0..<n_cols] []"

definition write_matrix :: "python \<Rightarrow> real list list \<Rightarrow> nat \<Rightarrow> nat \<Rightarrow> error + string" where
  "write_matrix py m n_rows n_cols =
     fold_e (\<lambda>i file.
               case write_matrix_line py m n_cols i of
                 Inl e \<Rightarrow> Inl e
               | Inr line \<Rightarrow>
                   Inr (let file = file @ line
                        in if int i < int n_rows - 1 then file @ newline else file))
       [0..<n_rows] []"

text \<open>
  The output species: all of them, or in observables-only mode those an observable
  refers to. \<open>self._out_species[i] = True\<close> raises for an index outside the list.
\<close>

definition mark_observed :: "nat \<Rightarrow> nat list list \<Rightarrow> error + bool list" where
  "mark_observed n obs =
     fold_e (\<lambda>ob flags.
               fold_e (\<lambda>i flags. if i < length flags then Inr (flags[i := True])
                                  else Inl IndexError) ob flags)
       obs (replicate n False)"

definition out_species :: "simulator \<Rightarrow> error + nat list" where
  "out_species s =
     (if obs_species_only s then
        (case mark_observed (length (species (model s))) (observables (model s)) of
           Inl e \<Rightarrow> Inl e
         | Inr flags \<Rightarrow> Inr (filter (\<lambda>i. flags ! i) [0..<len_species s]))
      else Inr [0..<len_species s])"

definition write_cs_vector :: "nat list \<Rightarrow> string" where
  "write_cs_vector out =
     fold (\<lambda>i file. (if i > 0 then file @ newline else file) @ str_nat (out ! i))
       [0..<length out] []"

text \<open>
  \<open>left_side\<close> and \<open>right_side\<close>: per reaction, the number of times each species
  occurs among the reactants (the products).
\<close>

definition stoichiometry :: "nat list \<Rightarrow> nat \<Rightarrow> nat" where
  "stoichiometry ks j = fold (\<lambda>k stoich. if j = k then stoich + 1 else stoich) ks 0"

definition write_side :: "simulator \<Rightarrow> (reaction \<Rightarrow> nat list) \<Rightarrow> string" where
  "write_side s side =
     fold (\<lambda>i file.
             let line =
               fold (\<lambda>j line. (if j > 0 then line @ tab else line) @
                               str_nat (stoichiometry (side (reactions (model s) ! i)) j))
                 [0..<len_species s] []
             in if int i < int (len_rxns s) - 1 then file @ line @ newline else file @ line)
       [0..<len_rxns s] []"

text \<open>
  The initial values that go to \<open>MX_0\<close>: with a volume, every cell divided by
  \<open>N_A * vol\<close> and then the column of the first species named \<open>__source()\<close> set
  to 1.
\<close>

fun first_source :: "string list \<Rightarrow> nat \<Rightarrow> nat option" where
  "first_source [] i = None"
| "first_source (sp # sps) i = (if sp = ''__source()'' then Some i else first_source sps (Suc i))"

definition set_column :: "nat \<Rightarrow> real \<Rightarrow> real list list \<Rightarrow> error + real list list" where
  "set_column i v m =
     (if list_all (\<lambda>row. i < length row) m then Inr (map (\<lambda>row. row[i := v]) m)
      else Inl IndexError)"

definition scaled_initials :: "simulator \<Rightarrow> error + real list list" where
  "scaled_initials s =
     (case vol_scale s of
        None \<Rightarrow> Inr (initials s)
      | Some nv \<Rightarrow>
          (let mx0 = map (map (\<lambda>x. x / nv)) (initials s)
           in case first_source (species (model s)) 0 of
                None \<Rightarrow> Inr mx0
              | Some i \<Rightarrow> set_column i 1 mx0))"

definition write_t_vector :: "python \<Rightarrow> simulator \<Rightarrow> string" where
  "write_t_vector py s = fold (\<lambda>t file. file @ str_of_float py t @ newline) (tspan s) []"

text \<open>\<open>time_max\<close>: \<open>self.tspan[-1]\<close> raises for an empty \<open>tspan\<close>.\<close>

definition write_time_max :: "python \<Rightarrow> simulator \<Rightarrow> error + string" where
  "write_time_max py s =
     (if tspan s = [] then Inl IndexError else Inr (str_of_float py (last (tspan s))))"

record input_files =
  atol_vector :: string
  c_matrix :: string
  cs_vector :: string
  left_side :: string
  f_max_steps :: string
  modelkind :: string
  MX_0 :: string
  right_side :: string
  f_rtol :: string
  t_vector :: string
  time_max :: string

text \<open>
  The files in the order the function writes them, and \<open>self._out_species\<close>. An
  exception ends the function; the files written before it stay on disk.
\<close>

definition create_input_files :: "python \<Rightarrow> simulator \<Rightarrow> error + input_files \<times> nat list" where
  "create_input_files py s =
     (let f_atol = write_atol_vector py s in
      case get_cmatrix py s of Inl e \<Rightarrow> Inl e | Inr cmtx \<Rightarrow>
      case write_matrix py cmtx (n_sims s) (len_rxns s) of Inl e \<Rightarrow> Inl e | Inr f_c \<Rightarrow>
      case out_species s of Inl e \<Rightarrow> Inl e | Inr out \<Rightarrow>
      let f_cs = write_cs_vector out;
          f_left = write_side s reactants;
          f_steps = str_int (max_steps s);
          f_kind = ''deterministic''
      in
      case scaled_initials s of Inl e \<Rightarrow> Inl e | Inr mx0 \<Rightarrow>
      case write_matrix py mx0 (n_sims s) (len_species s) of Inl e \<Rightarrow> Inl e | Inr f_mx0 \<Rightarrow>
      let f_right = write_side s products;
          f_r = str_of_float py (rtol s);
          f_t = write_t_vector py s
      in
      case write_time_max py s of Inl e \<Rightarrow> Inl e | Inr f_tmax \<Rightarrow>
      Inr (\<lparr>atol_vector = f_atol, c_matrix = f_c, cs_vector = f_cs, left_side = f_left,
            f_max_steps = f_steps, modelkind = f_kind, MX_0 = f_mx0, right_side = f_right,
            f_rtol = f_r, t_vector = f_t, time_max = f_tmax\<rparr>, out))"

text \<open>The eleven files \<open>_create_input_files\<close> writes for the small network.\<close>

definition example_files :: input_files where
  "example_files =
     \<lparr>atol_vector = ''1e-08'' @ newline @ ''1e-08'' @ newline @ ''1e-08'',
      c_matrix = ''?'' @ tab @ ''?'',
      cs_vector = ''1'',
      left_side = ''0'' @ tab @ ''1'' @ tab @ ''1'' @ newline @ ''1'' @ tab @ ''0'' @ tab @ ''0'',
      f_max_steps = ''20000'',
      modelkind = ''deterministic'',
      MX_0 = ''1.0'' @ tab @ ''?'' @ tab @ ''0.0'',
      right_side = ''0'' @ tab @ ''0'' @ tab @ ''1'' @ newline @ ''1'' @ tab @ ''1'' @ tab @ ''0'',
      f_rtol = ''1e-08'',
      t_vector = ''0.0'' @ newline @ ''1.0'' @ newline,
      time_max = ''1.0''\<rparr>"

subsection \<open>The output decoder: \<open>_load_trajectories\<close>\<close>

text \<open>
  What the decoder reads: the names in the output directory, the rows of numbers a file
  parses to (\<open>[line.rstrip('\n').split() for line in f]\<close> converted by \<open>np.array\<close>),
  what \<open>pandas.read_csv\<close> makes of a file when \<open>pandas\<close> is installed, and which of
  the two readers was the faster one on the first file.
\<close>

record output_dir =
  listdir :: "string \<Rightarrow> string list"
  file_rows :: "string \<Rightarrow> error + real list list"
  pandas_rows :: "(string \<Rightarrow> error + real list list) option"
  pandas_faster :: bool

text \<open>A two-dimensional array has rows of one length; \<open>np.array\<close> refuses others.\<close>

definition rectangular :: "'a list list \<Rightarrow> bool" where
  "rectangular rows = (case rows of [] \<Rightarrow> True | r # rs \<Rightarrow> list_all (\<lambda>x. length x = length r) rs)"

definition np_array :: "error + real list list \<Rightarrow> error + real list list" where
  "np_array rows =
     (case rows of
        Inl e \<Rightarrow> Inl e
      | Inr data \<Rightarrow> if rectangular data then Inr data else Inl ValueError)"

definition load_with_openfile :: "output_dir \<Rightarrow> string \<Rightarrow> error + real list list" where
  "load_with_openfile d filename = np_array (file_rows d filename)"

definition load_with_pandas :: "output_dir \<Rightarrow> string \<Rightarrow> error + real list list" where
  "load_with_pandas d filename =
     (case pandas_rows d of None \<Rightarrow> Inl AttributeError | Some read_csv \<Rightarrow> np_array (read_csv filename))"

definition test_pandas :: "output_dir \<Rightarrow> string \<Rightarrow> error + real list list \<times> bool" where
  "test_pandas d filename =
     (case load_with_openfile d filename of
        Inl e \<Rightarrow> Inl e
      | Inr data \<Rightarrow>
          (case pandas_rows d of
             None \<Rightarrow> Inr (data, False)
           | Some read_csv \<Rightarrow>
               (case load_with_pandas d filename of
                  Inl e \<Rightarrow> Inl e
                | Inr unused \<Rightarrow> if pandas_faster d then Inr (data, True) else Inr (data, False))))"

text \<open>
  Assigning an array to a block of another array: a dimension of the value has the
  length of the target or the length one, which is repeated.
\<close>

definition broadcast :: "nat \<Rightarrow> 'a list \<Rightarrow> error + 'a list" where
  "broadcast n xs =
     (if length xs = n then Inr xs
      else case xs of [x] \<Rightarrow> Inr (replicate n x) | _ \<Rightarrow> Inl ValueError)"

text \<open>\<open>row[idx] = vals\<close> and \<open>row[idx]\<close> for an index list.\<close>

definition scatter :: "nat list \<Rightarrow> 'a list \<Rightarrow> 'a list \<Rightarrow> 'a list" where
  "scatter idx vals row = fold (\<lambda>(i, v) r. r[i := v]) (zip idx vals) row"

definition gather :: "nat list \<Rightarrow> 'a list \<Rightarrow> 'a list" where
  "gather idx row = map (\<lambda>i. row ! i) idx"

text \<open>
  One time point of one trajectory: the row starts as not-a-number (\<open>None\<close>) in every
  species column, the selected columns take the loaded values, and with a volume the
  selected columns are multiplied by \<open>N_A * vol\<close>.
\<close>

definition store_row :: "real option \<Rightarrow> nat list \<Rightarrow> real list \<Rightarrow> real option list \<Rightarrow> real option list" where
  "store_row scale out vals row =
     (let row = scatter out (map Some vals) row
      in case scale of
           None \<Rightarrow> row
         | Some nv \<Rightarrow> scatter out (map (map_option (\<lambda>x. x * nv)) (gather out row)) row)"

text \<open>
  \<open>tout[n] = data[:, 0]\<close>, \<open>trajectories[n][:, self._out_species] = data[:, 1:]\<close> and
  the volume correction, for the array of one file.
\<close>

definition store_data ::
  "simulator \<Rightarrow> nat list \<Rightarrow> real list list \<Rightarrow> error + real list \<times> real option list list" where
  "store_data s out data =
     (case data of
        [] \<Rightarrow> Inl IndexError
      | r # rest \<Rightarrow>
          if r = [] then Inl IndexError
          else
            (let tout_n = map hd data;
                 vals = map tl data;
                 traj_n = replicate (len_tspan s) (replicate (len_species s) None)
             in if \<not> list_all (\<lambda>i. i < len_species s) out then Inl IndexError
                else
                  (case broadcast (len_tspan s) vals of
                     Inl e \<Rightarrow> Inl e
                   | Inr rows \<Rightarrow>
                       (case map_e (broadcast (length out)) rows of
                          Inl e \<Rightarrow> Inl e
                        | Inr rows' \<Rightarrow>
                            Inr (tout_n,
                                 map2 (\<lambda>v row. store_row (vol_scale s) out v row) rows' traj_n)))))"

text \<open>
  The state of the loop over the simulations: the time vectors and trajectories loaded so
  far, \<open>use_pandas\<close> once the first file has set it, and the files opened so far.
\<close>

record load_state =
  tout :: "real list list"
  trajectories :: "real option list list list"
  use_pandas :: bool
  opened :: "string list"

fun load_files ::
  "os_env \<Rightarrow> output_dir \<Rightarrow> simulator \<Rightarrow> nat list \<Rightarrow> string \<Rightarrow> nat list \<Rightarrow> load_state
   \<Rightarrow> error option \<times> load_state" where
  "load_files os d s out indir_prefix [] st = (None, st)"
| "load_files os d s out indir_prefix (n # ns) st =
     (let filename = indir_prefix @ ''_'' @ str_nat n in
      if \<not> isfile os filename then (Some (PyException (''Cannot find input file '' @ filename)), st)
      else
        (let st = st\<lparr>opened := opened st @ [filename]\<rparr> in
         case (if n = 0 then test_pandas d filename
               else if use_pandas st
                    then (case load_with_pandas d filename of
                            Inl e \<Rightarrow> Inl e | Inr data \<Rightarrow> Inr (data, use_pandas st))
                    else (case load_with_openfile d filename of
                            Inl e \<Rightarrow> Inl e | Inr data \<Rightarrow> Inr (data, use_pandas st))) of
           Inl e \<Rightarrow> (Some e, st)
         | Inr (data, pandas) \<Rightarrow>
             (case store_data s out data of
                Inl e \<Rightarrow> (Some e, st)
              | Inr (tout_n, traj_n) \<Rightarrow>
                  load_files os d s out indir_prefix ns
                    (st\<lparr>tout := tout st @ [tout_n],
                        trajectories := trajectories st @ [traj_n],
                        use_pandas := pandas\<rparr>))))"

definition no_files_msg :: string where
  "no_files_msg = ''Cannot find any output files to load data from.''"

definition count_mismatch_msg :: "nat \<Rightarrow> nat \<Rightarrow> string" where
  "count_mismatch_msg n_files n_requested =
     ''Number of input files ('' @ str_nat n_files @ '') does not match number '' @
     ''of requested simulations ('' @ str_nat n_requested @ '').''"

text \<open>
  The result, or the exception, and the output files opened on the way.
\<close>

definition load_trajectories ::
  "python \<Rightarrow> os_env \<Rightarrow> output_dir \<Rightarrow> simulator \<Rightarrow> nat list \<Rightarrow> string
   \<Rightarrow> (error + real list list \<times> real option list list list) \<times> string list" where
  "load_trajectories py os d s out dir =
     (let files = filter (re_match py (prefix s)) (listdir d dir) in
      if length files = 0 then (Inl (SimulatorException no_files_msg), [])
      else if length files \<noteq> length (param_values s) then
        (Inl (SimulatorException (count_mismatch_msg (length files) (length (param_values s)))), [])
      else
        (let n_files = length files;
             indir_prefix = path_join dir (prefix s)
         in case load_files os d s out indir_prefix [0..<n_files]
                   \<lparr>tout = [], trajectories = [], use_pandas = False, opened = []\<rparr> of
              (Some e, st) \<Rightarrow> (Inl e, opened st)
            | (None, st) \<Rightarrow> (Inr (tout st, trajectories st), opened st)))"

subsection \<open>One simulation run: \<open>run\<close>\<close>

text \<open>
  The world \<open>run\<close> acts in: the operating system, the GPU (absent without
  \<open>pycuda\<close>), the directory \<open>tempfile.mkdtemp\<close> creates, the external solver (for a command
  line, its exit code and what \<open>communicate()\<close> returns of its output streams) and the
  output directory as the solver leaves it. The base class's \<open>run\<close> has set \<open>tspan\<close>,
  \<open>initials\<close> and \<open>param_values\<close>; creating the directories and starting the process
  succeed. In verbose mode the loop over \<open>p.stdout.readline\<close> prints the standard
  output, and \<open>communicate()\<close> returns what is left of it.
\<close>

record process =
  returncode :: int
  p_out :: string
  p_err :: string

record world =
  host :: os_env
  cuda_device :: "device_attributes option"
  mkdtemp :: string
  popen :: "string list \<Rightarrow> process"
  solver_output :: output_dir

text \<open>\<open>s.rstrip(chars)\<close>, and the characters \<open>s.rstrip()\<close> removes.\<close>

definition rstrip :: "string \<Rightarrow> string \<Rightarrow> string" where
  "rstrip chars s = rev (dropWhile (\<lambda>c. c \<in> set chars) (rev s))"

definition whitespace :: string where
  "whitespace = [CHR 0x20, CHR 0x09, CHR 0x0A, CHR 0x0B, CHR 0x0C, CHR 0x0D]"

definition memory_options :: "(string \<times> string) list" where
  "memory_options = [(''global'', ''0''), (''shared'', ''1''), (''sharedconstant'', ''2'')]"

definition memory_usage_code :: "simulator \<Rightarrow> error + string" where
  "memory_usage_code s =
     (case map_of memory_options (memory_usage s) of
        None \<Rightarrow> Inl (PyException ''memory_usage must be one of %s'')
      | Some code \<Rightarrow> Inr code)"

text \<open>
  What a call of \<open>run\<close> leaves: its result or exception, the cached solver path, the
  directories \<open>shutil.rmtree\<close> was called on, and the output files it opened.
\<close>

record outcome =
  result :: "error + real list list \<times> real option list list list"
  cupsoda_path :: "string option"
  removed :: "string list"
  files_opened :: "string list"

definition solver_error :: "process \<Rightarrow> error" where
  "solver_error p = SimulatorException (rstrip ''at line'' (p_out p) @ newline @ rstrip whitespace (p_err p))"

definition command_line :: "simulator \<Rightarrow> string \<Rightarrow> string \<Rightarrow> int \<Rightarrow> string \<Rightarrow> string list" where
  "command_line s bin_path outdir blocks memory =
     [bin_path, path_join outdir ''INPUT'', str_int blocks, path_join outdir ''OUTPUT'',
      prefix s, str_int (gpu s), ''0'', memory, if verbose s then ''1'' else ''0'']"

definition run :: "python \<Rightarrow> world \<Rightarrow> simulator \<Rightarrow> string option \<Rightarrow> outcome" where
  "run py w s g =
     (let outdir = mkdtemp w;
          cupsoda_outfiles_dir = path_join outdir ''OUTPUT''
      in case get_cupsoda_path (host w) g of
           (Inl e, g') \<Rightarrow> \<lparr>result = Inl e, cupsoda_path = g', removed = [], files_opened = []\<rparr>
         | (Inr bin_path, g') \<Rightarrow>
      (case get_nblocks (n_blocks s) (cuda_device w) (len_species s) (length (param_values s)) of
           Inl e \<Rightarrow> \<lparr>result = Inl e, cupsoda_path = g', removed = [], files_opened = []\<rparr>
         | Inr blocks \<Rightarrow>
      (case create_input_files py s of
           Inl e \<Rightarrow> \<lparr>result = Inl e, cupsoda_path = g', removed = [], files_opened = []\<rparr>
         | Inr (files, out) \<Rightarrow>
      (case memory_usage_code s of
           Inl e \<Rightarrow> \<lparr>result = Inl e, cupsoda_path = g', removed = [], files_opened = []\<rparr>
         | Inr memory \<Rightarrow>
      (let p = popen w (command_line s bin_path outdir blocks memory) in
       if returncode p \<noteq> 0 then
         \<lparr>result = Inl (solver_error p), cupsoda_path = g', removed = [], files_opened = []\<rparr>
       else
         (case load_trajectories py (host w) (solver_output w) s out cupsoda_outfiles_dir of
            (Inl e, seen) \<Rightarrow>
              \<lparr>result = Inl e, cupsoda_path = g', removed = [], files_opened = seen\<rparr>
          | (Inr loaded, seen) \<Rightarrow>
              \<lparr>result = Inr loaded, cupsoda_path = g',
               removed = (if cleanup s then [outdir] else []), files_opened = seen\<rparr>))))))"

subsection \<open>A machine for the small network\<close>

text \<open>
  The solver is installed in the first standard location, there is no GPU query, the
  solver exits with code 0 and leaves one output file with the time points 0 and 1 and
  the concentrations 2 and 3 of the one selected species. The variants: a solver that
  fails with \<open>boom\<close> on its standard error, one that fails with \<open>fatal\<close> on its
  standard output, a solver that leaves two output files for the one simulation, and the
  small network with every species selected.
\<close>

definition example_world :: world where
  "example_world =
     \<lparr>host = standard_install
         \<lparr>isfile := (\<lambda>p. p = ''/usr/local/share/cupSODA/cupSODA''
                           \<or> p = ''/tmp/example_x/OUTPUT/example_0'')\<rparr>,
      cuda_device = None,
      mkdtemp = ''/tmp/example_x'',
      popen = (\<lambda>command. \<lparr>returncode = 0, p_out = [], p_err = []\<rparr>),
      solver_output =
        \<lparr>listdir = (\<lambda>d. if d = ''/tmp/example_x/OUTPUT'' then [''example_0''] else []),
         file_rows = (\<lambda>f. if f = ''/tmp/example_x/OUTPUT/example_0''
                            then Inr [[0, 2], [1, 3]] else Inl IOError),
         pandas_rows = None,
         pandas_faster = False\<rparr>\<rparr>"

definition boom_world :: world where
  "boom_world = example_world\<lparr>popen := (\<lambda>command. \<lparr>returncode = 1, p_out = [], p_err = ''boom''\<rparr>)\<rparr>"

definition fatal_world :: world where
  "fatal_world = example_world\<lparr>popen := (\<lambda>command. \<lparr>returncode = 1, p_out = ''fatal'', p_err = []\<rparr>)\<rparr>"

definition two_outputs_world :: world where
  "two_outputs_world =
     example_world\<lparr>solver_output := (solver_output example_world)
       \<lparr>listdir := (\<lambda>d. if d = ''/tmp/example_x/OUTPUT'' then [''example_0'', ''example_1'']
                          else [])\<rparr>\<rparr>"

definition example_full :: simulator where
  "example_full = example_sim\<lparr>obs_species_only := False\<rparr>"

section \<open>Properties\<close>

subsection \<open>Block planner\<close>

lemma threads_per_block_nonneg: "0 \<le> threads_per_block dev n_species"
  by (cases dev) (simp_all add: threads_per_block_def Let_def pos_imp_zdiv_nonneg_iff)

lemma ceiling_covers:
  fixes t :: int
  assumes "0 < t"
  shows "int n \<le> \<lceil>real n / real_of_int t\<rceil> * t"
proof -
  have "real n / real_of_int t \<le> real_of_int \<lceil>real n / real_of_int t\<rceil>"
    by (rule le_of_int_ceiling)
  moreover from assms have "0 < real_of_int t"
    by simp
  ultimately have "real n \<le> real_of_int \<lceil>real n / real_of_int t\<rceil> * real_of_int t"
    by (simp only: pos_divide_le_eq)
  then have "real_of_int (int n) \<le> real_of_int (\<lceil>real n / real_of_int t\<rceil> * t)"
    by simp
  then show ?thesis
    by (simp only: of_int_le_iff)
qed

text \<open>
  Claim C4. Whatever number of blocks the planner computes by itself covers the
  simulations: blocks times threads per block is at least \<open>n_sims\<close>, and it does compute
  one whenever the number of threads per block is not zero. Without a GPU query
  capability the number of threads per block is 32 and the planner returns a number of
  blocks. A configured number of blocks is returned as it is.
\<close>

theorem get_nblocks_covers:
  "(get_nblocks None dev n_species n_simulations = Inr b \<longrightarrow>
      int n_simulations \<le> b * threads_per_block dev n_species)
   \<and> (threads_per_block dev n_species \<noteq> 0 \<longrightarrow>
      (\<exists>b'. get_nblocks None dev n_species n_simulations = Inr b'))
   \<and> threads_per_block None n_species = 32
   \<and> (\<exists>b'. get_nblocks None None n_species n_simulations = Inr b' \<and> int n_simulations \<le> b' * 32)
   \<and> get_nblocks (Some k) dev n_species n_simulations = Inr k"
proof -
  have nn: "0 \<le> threads_per_block dev n_species"
    by (rule threads_per_block_nonneg)
  have a: "get_nblocks None dev n_species n_simulations = Inr b \<longrightarrow>
      int n_simulations \<le> b * threads_per_block dev n_species"
  proof
    assume r: "get_nblocks None dev n_species n_simulations = Inr b"
    then have nz: "threads_per_block dev n_species \<noteq> 0"
      by (auto simp: get_nblocks_def Let_def split: if_splits)
    with nn have pos: "0 < threads_per_block dev n_species" by simp
    from r nz have "b = \<lceil>real n_simulations / real_of_int (threads_per_block dev n_species)\<rceil>"
      by (simp add: get_nblocks_def Let_def)
    with ceiling_covers [OF pos, of n_simulations]
    show "int n_simulations \<le> b * threads_per_block dev n_species" by simp
  qed
  have c: "threads_per_block None n_species = 32"
    by (simp add: threads_per_block_def)
  have d: "\<exists>b'. get_nblocks None None n_species n_simulations = Inr b' \<and> int n_simulations \<le> b' * 32"
    using ceiling_covers [of 32 n_simulations] by (simp add: get_nblocks_def c)
  show ?thesis
    using a c d by (simp add: get_nblocks_def Let_def)
qed

theorem get_nblocks_covers_witness:
  "get_nblocks None (Some \<lparr>MAX_SHARED_MEMORY_PER_BLOCK = 49152, MAX_THREADS_PER_BLOCK = 1024\<rparr>)
     4 100 = Inr 4
   \<and> int 100 \<le> 4 * threads_per_block
        (Some \<lparr>MAX_SHARED_MEMORY_PER_BLOCK = 49152, MAX_THREADS_PER_BLOCK = 1024\<rparr>) 4
   \<and> threads_per_block
        (Some \<lparr>MAX_SHARED_MEMORY_PER_BLOCK = 49152, MAX_THREADS_PER_BLOCK = 1024\<rparr>) 4 \<noteq> 0
   \<and> get_nblocks (Some 7)
        (Some \<lparr>MAX_SHARED_MEMORY_PER_BLOCK = 49152, MAX_THREADS_PER_BLOCK = 1024\<rparr>) 4 100
      = Inr 7"
  using get_nblocks_covers
    [of "Some \<lparr>MAX_SHARED_MEMORY_PER_BLOCK = 49152, MAX_THREADS_PER_BLOCK = 1024\<rparr>" 4 100 4 7]
  by (simp add: get_nblocks_def threads_per_block_def Let_def)

subsection \<open>Binary discovery\<close>

lemma path_join_nonempty: "path_join d ''cupSODA'' \<noteq> []"
  by (simp add: path_join_def)

lemma cached_path_join: "cached_path (Some (path_join d ''cupSODA'')) = Some (path_join d ''cupSODA'')"
  by (simp add: cached_path_def path_join_nonempty)

lemma check_bin_dir_Some: "check_bin_dir os d = Some p \<Longrightarrow> p = path_join d ''cupSODA''"
  by (simp add: check_bin_dir_def Let_def split: if_splits)

lemma search_bin_dirs_Inr: "search_bin_dirs os bs = Inr p \<Longrightarrow> cached_path (Some p) = Some p"
  by (cases bs) (auto simp: cached_path_join split: option.splits dest!: check_bin_dir_Some)

lemma get_cupsoda_path_caches:
  assumes "get_cupsoda_path os g = (Inr p, g')"
  shows "cached_path g' = Some p"
proof (cases "cached_path g")
  case (Some q)
  with assms show ?thesis by (simp add: get_cupsoda_path_def)
next
  case None
  show ?thesis
  proof (cases "environ os path_var")
    case (Some d)
    with None assms have "p = path_join d ''cupSODA'' \<and> g' = Some p"
      by (auto simp: get_cupsoda_path_def check_bin_dir_def Let_def split: if_splits)
    then show ?thesis by (simp add: cached_path_join)
  next
    case no_var: None
    with None assms have "search_bin_dirs os bin_dirs = Inr p \<and> g' = Some p"
      by (auto simp: get_cupsoda_path_def split: sum.splits)
    then show ?thesis by (auto dest: search_bin_dirs_Inr)
  qed
qed

text \<open>
  Claim C7, as the code has it. The path of a successful \<open>set_cupsoda_path\<close> is what the
  next lookup returns, whatever the environment and the standard locations hold. With no
  cached path and \<open>CUPSODAPATH\<close> set, the lookup returns the file \<open>cupSODA\<close> in that
  directory when it is an executable file, and raises \<open>SimulatorException\<close> when it
  does not exist: the standard locations are not tried. With no cached path and
  \<open>CUPSODAPATH\<close> not set, it returns the solver in the first standard location when that
  is an executable file. A path resolved from an empty cache is cached: every later lookup
  returns it.
\<close>

theorem get_cupsoda_path_precedence:
  "(fst (set_cupsoda_path os d') = Inr () \<longrightarrow>
      get_cupsoda_path os' (snd (set_cupsoda_path os d')) =
        (Inr (path_join d' ''cupSODA''), Some (path_join d' ''cupSODA'')))
   \<and> (cached_path g = None \<and> environ os path_var = Some d
        \<and> usable_binary os (path_join d ''cupSODA'') \<longrightarrow>
        get_cupsoda_path os g =
          (Inr (path_join d ''cupSODA''), Some (path_join d ''cupSODA'')))
   \<and> (cached_path g = None \<and> environ os path_var = Some d
        \<and> \<not> access_F_OK os (path_join d ''cupSODA'') \<longrightarrow>
        get_cupsoda_path os g = (Inl (SimulatorException env_not_found_msg), g))
   \<and> (cached_path g = None \<and> environ os path_var = None
        \<and> usable_binary os (path_join ''/usr/local/share/cupSODA'' ''cupSODA'') \<longrightarrow>
        get_cupsoda_path os g =
          (Inr (path_join ''/usr/local/share/cupSODA'' ''cupSODA''),
           Some (path_join ''/usr/local/share/cupSODA'' ''cupSODA'')))
   \<and> (cached_path g = None \<and> get_cupsoda_path os g = (Inr q, g') \<longrightarrow>
        get_cupsoda_path os' g' = (Inr q, g'))"
proof -
  have a: "fst (set_cupsoda_path os d') = Inr () \<longrightarrow>
      get_cupsoda_path os' (snd (set_cupsoda_path os d')) =
        (Inr (path_join d' ''cupSODA''), Some (path_join d' ''cupSODA''))"
    by (simp add: set_cupsoda_path_def Let_def get_cupsoda_path_def cached_path_join)
  have b: "cached_path g = None \<and> environ os path_var = Some d
        \<and> usable_binary os (path_join d ''cupSODA'') \<longrightarrow>
        get_cupsoda_path os g =
          (Inr (path_join d ''cupSODA''), Some (path_join d ''cupSODA''))"
    by (simp add: get_cupsoda_path_def check_bin_dir_def Let_def usable_binary_def)
  have c: "cached_path g = None \<and> environ os path_var = Some d
        \<and> \<not> access_F_OK os (path_join d ''cupSODA'') \<longrightarrow>
        get_cupsoda_path os g = (Inl (SimulatorException env_not_found_msg), g)"
    by (simp add: get_cupsoda_path_def check_bin_dir_def Let_def)
  have d: "cached_path g = None \<and> environ os path_var = None
        \<and> usable_binary os (path_join ''/usr/local/share/cupSODA'' ''cupSODA'') \<longrightarrow>
        get_cupsoda_path os g =
          (Inr (path_join ''/usr/local/share/cupSODA'' ''cupSODA''),
           Some (path_join ''/usr/local/share/cupSODA'' ''cupSODA''))"
    by (simp add: get_cupsoda_path_def check_bin_dir_def Let_def bin_dirs_def usable_binary_def)
  have e: "cached_path g = None \<and> get_cupsoda_path os g = (Inr q, g') \<longrightarrow>
        get_cupsoda_path os' g' = (Inr q, g')"
  proof
    assume "cached_path g = None \<and> get_cupsoda_path os g = (Inr q, g')"
    then have "cached_path g' = Some q" by (auto dest: get_cupsoda_path_caches)
    then show "get_cupsoda_path os' g' = (Inr q, g')" by (simp add: get_cupsoda_path_def)
  qed
  from a b c d e show ?thesis by blast
qed

theorem get_cupsoda_path_precedence_witness:
  "fst (set_cupsoda_path standard_install ''/usr/local/share/cupSODA'') = Inr ()
   \<and> get_cupsoda_path both_installed
        (snd (set_cupsoda_path standard_install ''/usr/local/share/cupSODA'')) =
        (Inr ''/usr/local/share/cupSODA/cupSODA'', Some ''/usr/local/share/cupSODA/cupSODA'')
   \<and> get_cupsoda_path both_installed None = (Inr ''/opt/cupSODA'', Some ''/opt/cupSODA'')
   \<and> get_cupsoda_path stale_variable None = (Inl (SimulatorException env_not_found_msg), None)
   \<and> get_cupsoda_path standard_install None =
        (Inr ''/usr/local/share/cupSODA/cupSODA'', Some ''/usr/local/share/cupSODA/cupSODA'')
   \<and> get_cupsoda_path stale_variable (Some ''/usr/local/share/cupSODA/cupSODA'') =
        (Inr ''/usr/local/share/cupSODA/cupSODA'', Some ''/usr/local/share/cupSODA/cupSODA'')"
proof -
  have c0: "cached_path None = None"
    by (simp add: cached_path_def)
  have e1: "environ both_installed path_var = Some ''/opt''"
    "environ stale_variable path_var = Some ''/opt''"
    "environ standard_install path_var = None"
    by (simp_all add: both_installed_def stale_variable_def standard_install_def path_var_def)
  have j1: "path_join ''/usr/local/share/cupSODA'' ''cupSODA'' = ''/usr/local/share/cupSODA/cupSODA''"
    by (simp add: path_join_def)
  have j3: "path_join ''/opt'' ''cupSODA'' = ''/opt/cupSODA''"
    by (simp add: path_join_def)
  have s1: "fst (set_cupsoda_path standard_install ''/usr/local/share/cupSODA'') = Inr ()"
    by (simp add: set_cupsoda_path_def Let_def j1 standard_install_def)
  have u1: "usable_binary both_installed ''/opt/cupSODA''"
    by (simp add: usable_binary_def both_installed_def)
  have u2: "usable_binary standard_install ''/usr/local/share/cupSODA/cupSODA''"
    by (simp add: usable_binary_def standard_install_def)
  have f1: "\<not> access_F_OK stale_variable ''/opt/cupSODA''"
    by (simp add: stale_variable_def standard_install_def)
  note A = get_cupsoda_path_precedence
    [where os = standard_install and d' = "''/usr/local/share/cupSODA''" and os' = both_installed
       and g = None and d = "''/opt''" and q = "''/usr/local/share/cupSODA/cupSODA''"
       and g' = "Some ''/usr/local/share/cupSODA/cupSODA''"]
  note B = get_cupsoda_path_precedence
    [where os = both_installed and d' = "''/usr/local/share/cupSODA''" and os' = both_installed
       and g = None and d = "''/opt''" and q = "''/opt/cupSODA''"
       and g' = "Some ''/opt/cupSODA''"]
  note C = get_cupsoda_path_precedence
    [where os = stale_variable and d' = "''/usr/local/share/cupSODA''" and os' = both_installed
       and g = None and d = "''/opt''" and q = "''/opt/cupSODA''"
       and g' = "Some ''/opt/cupSODA''"]
  note D = get_cupsoda_path_precedence
    [where os = standard_install and d' = "''/usr/local/share/cupSODA''" and os' = stale_variable
       and g = None and d = "''/opt''" and q = "''/usr/local/share/cupSODA/cupSODA''"
       and g' = "Some ''/usr/local/share/cupSODA/cupSODA''"]
  from A s1 have r2: "get_cupsoda_path both_installed
        (snd (set_cupsoda_path standard_install ''/usr/local/share/cupSODA'')) =
        (Inr ''/usr/local/share/cupSODA/cupSODA'', Some ''/usr/local/share/cupSODA/cupSODA'')"
    unfolding j1 by blast
  from B c0 e1(1) u1 have r3: "get_cupsoda_path both_installed None =
        (Inr ''/opt/cupSODA'', Some ''/opt/cupSODA'')"
    unfolding j3 by blast
  from C c0 e1(2) f1 have r4: "get_cupsoda_path stale_variable None =
        (Inl (SimulatorException env_not_found_msg), None)"
    unfolding j3 by blast
  from A c0 e1(3) u2 have r5: "get_cupsoda_path standard_install None =
        (Inr ''/usr/local/share/cupSODA/cupSODA'', Some ''/usr/local/share/cupSODA/cupSODA'')"
    unfolding j1 by blast
  from D c0 r5 have r6: "get_cupsoda_path stale_variable (Some ''/usr/local/share/cupSODA/cupSODA'') =
        (Inr ''/usr/local/share/cupSODA/cupSODA'', Some ''/usr/local/share/cupSODA/cupSODA'')"
    by blast
  from s1 r2 r3 r4 r5 r6 show ?thesis by blast
qed

text \<open>
  The claim as the specification states it fails: with \<open>CUPSODAPATH\<close> naming a directory
  that has no solver and the solver installed (executable) in the first standard
  location, the chain of the specification yields that file, and the code raises.
\<close>

theorem get_cupsoda_path_counterexample:
  "claimed_cupsoda_path stale_variable None = Some ''/usr/local/share/cupSODA/cupSODA''
   \<and> get_cupsoda_path stale_variable None = (Inl (SimulatorException env_not_found_msg), None)"
  by (simp add: claimed_cupsoda_path_def claimed_sources_def usable_binary_def
      get_cupsoda_path_def cached_path_def check_bin_dir_def
      stale_variable_def standard_install_def path_var_def path_join_def bin_dirs_def)

subsection \<open>Loops that may raise\<close>

lemma map_e_length: "map_e f xs = Inr ys \<Longrightarrow> length ys = length xs"
  by (induction xs arbitrary: ys) (auto split: sum.splits)

lemma map_e_nth: "map_e f xs = Inr ys \<Longrightarrow> i < length xs \<Longrightarrow> f (xs ! i) = Inr (ys ! i)"
proof (induction xs arbitrary: ys i)
  case Nil
  then show ?case by simp
next
  case (Cons x xs)
  then show ?case by (cases i) (auto split: sum.splits)
qed

lemma map_e_cong: "(\<And>x. x \<in> set xs \<Longrightarrow> f x = g x) \<Longrightarrow> map_e f xs = map_e g xs"
  by (induction xs) (auto split: sum.splits)

subsection \<open>Rate matrix\<close>

lemma rate_step_scale:
  "rate_step py names row x r = Inr r' \<Longrightarrow>
   \<exists>v. rate_step py names row x 1 = Inr v \<and> r' = r * v"
  by (auto simp: rate_step_def split: if_splits option.splits sum.splits)

lemma fold_rate_step:
  "fold_e (rate_step py names row) args r = Inr rate \<Longrightarrow>
   \<exists>vals. map_e (\<lambda>x. rate_step py names row x 1) args = Inr vals \<and> rate = r * prod_list vals"
proof (induction args arbitrary: r)
  case Nil
  then show ?case by simp
next
  case (Cons x args)
  from Cons.prems obtain r' where s: "rate_step py names row x r = Inr r'"
    and f: "fold_e (rate_step py names row) args r' = Inr rate"
    by (auto split: sum.splits)
  from rate_step_scale [OF s] obtain v where v: "rate_step py names row x 1 = Inr v" "r' = r * v"
    by blast
  from Cons.IH [OF f] obtain vals
    where vals: "map_e (\<lambda>x. rate_step py names row x 1) args = Inr vals" "rate = r' * prod_list vals"
    by blast
  from v vals show ?case by (simp add: mult.assoc)
qed

lemma count_reactants_fold:
  "fold_e (\<lambda>i n. case nth_e sps i of Inl e \<Rightarrow> Inl e
                  | Inr sp \<Rightarrow> Inr (if \<not> sp = ''__source()'' then n + 1 else n)) rs (n0::int) = Inr n
   \<Longrightarrow> n = n0 + int (length (filter (\<lambda>k. sps ! k \<noteq> ''__source()'') rs))"
proof (induction rs arbitrary: n0)
  case Nil
  then show ?case by simp
next
  case (Cons k rs)
  from Cons.prems obtain sp where sp: "nth_e sps k = Inr sp"
    by (auto split: sum.splits)
  then have k: "sp = sps ! k"
    by (auto simp: nth_e_def split: if_splits)
  show ?case
  proof (cases "sp = ''__source()''")
    case True
    with Cons.prems sp have "fold_e (\<lambda>i n. case nth_e sps i of Inl e \<Rightarrow> Inl e
                  | Inr sp \<Rightarrow> Inr (if \<not> sp = ''__source()'' then n + 1 else n)) rs n0 = Inr n"
      by simp
    from Cons.IH [OF this] True k show ?thesis by simp
  next
    case False
    with Cons.prems sp have "fold_e (\<lambda>i n. case nth_e sps i of Inl e \<Rightarrow> Inl e
                  | Inr sp \<Rightarrow> Inr (if \<not> sp = ''__source()'' then n + 1 else n)) rs (n0 + 1) = Inr n"
      by simp
    from Cons.IH [OF this] False k show ?thesis by simp
  qed
qed

lemma count_reactants_eq:
  "count_reactants m rxn = Inr n \<Longrightarrow>
   n = int (length (filter (\<lambda>k. species m ! k \<noteq> ''__source()'') (reactants rxn)))"
  unfolding count_reactants_def by (drule count_reactants_fold) simp

lemma get_cmatrix_shape:
  assumes "get_cmatrix py s = Inr c"
  shows "length c = length (param_values s)"
    and "i < length (param_values s) \<Longrightarrow> length (c ! i) = len_rxns s"
proof -
  from assms obtain par_vals rxn_info where
    pv: "map_e (mask_columns (rate_mask (model s))) (param_values s) = Inr par_vals"
    and c: "map_e (\<lambda>i. map_e (\<lambda>j. cmatrix_cell py s (par_vals ! i)
                                        (fst (rxn_info ! j)) (snd (rxn_info ! j)))
                             [0..<len_rxns s])
                 [0..<length par_vals] = Inr c"
    by (auto simp: get_cmatrix_def split: sum.splits)
  from map_e_length [OF pv] map_e_length [OF c]
  show len: "length c = length (param_values s)" by simp
  assume i: "i < length (param_values s)"
  with map_e_length [OF pv] have "i < length [0..<length par_vals]" by simp
  from map_e_nth [OF c this] i map_e_length [OF pv]
  have "map_e (\<lambda>j. cmatrix_cell py s (par_vals ! i)
                                        (fst (rxn_info ! j)) (snd (rxn_info ! j)))
                             [0..<len_rxns s] = Inr (c ! i)" by simp
  from map_e_length [OF this] show "length (c ! i) = len_rxns s" by simp
qed

text \<open>
  What the compiler computes: every cell is the product its own loop accumulates over
  the arguments it keeps, times the volume scale to the power of the number of reactants
  that are not the source pseudo-species, minus one.
\<close>

lemma get_cmatrix_volume_factor:
  assumes "get_cmatrix py s = Inr c" and "vol_scale s = Some nv"
    and "i < length (param_values s)" and "j < length (reactions (model s))"
  shows "\<exists>row rate. mask_columns (rate_mask (model s)) (param_values s ! i) = Inr row
     \<and> fold_e (rate_step py (parameters_rules (model s)) row)
           (kept_rate_args (reactions (model s) ! j)) 1 = Inr rate
     \<and> c ! i ! j = rate * nv powi (int (reactant_count (model s) j) - 1)"
proof -
  from assms(1) obtain par_vals rxn_info where
    pv: "map_e (mask_columns (rate_mask (model s))) (param_values s) = Inr par_vals"
    and ri: "map_e (\<lambda>rxn. case count_reactants (model s) rxn of
                               Inl e \<Rightarrow> Inl e
                             | Inr n \<Rightarrow> Inr (kept_rate_args rxn, n))
                  (reactions (model s)) = Inr rxn_info"
    and c: "map_e (\<lambda>i. map_e (\<lambda>j. cmatrix_cell py s (par_vals ! i)
                                        (fst (rxn_info ! j)) (snd (rxn_info ! j)))
                             [0..<len_rxns s])
                 [0..<length par_vals] = Inr c"
    by (auto simp: get_cmatrix_def split: sum.splits)
  have lpv: "length par_vals = length (param_values s)"
    by (rule map_e_length [OF pv])
  have row: "mask_columns (rate_mask (model s)) (param_values s ! i) = Inr (par_vals ! i)"
    by (rule map_e_nth [OF pv assms(3)])
  from map_e_nth [OF ri assms(4)]
  obtain n where n: "count_reactants (model s) (reactions (model s) ! j) = Inr n"
    and info: "rxn_info ! j = (kept_rate_args (reactions (model s) ! j), n)"
    by (auto split: sum.splits)
  from count_reactants_eq [OF n] have n_eq: "n = int (reactant_count (model s) j)"
    by (simp add: reactant_count_def)
  from assms(3) lpv have "i < length [0..<length par_vals]" by simp
  from map_e_nth [OF c this] assms(3) lpv
  have ci: "map_e (\<lambda>j. cmatrix_cell py s (par_vals ! i)
                                        (fst (rxn_info ! j)) (snd (rxn_info ! j)))
                             [0..<len_rxns s] = Inr (c ! i)" by simp
  from assms(4) have "j < length [0..<len_rxns s]" by (simp add: len_rxns_def)
  from map_e_nth [OF ci this] assms(4) info
  have cell: "cmatrix_cell py s (par_vals ! i) (kept_rate_args (reactions (model s) ! j)) n
              = Inr (c ! i ! j)"
    by (simp add: len_rxns_def)
  from cell assms(2) obtain rate where
    f: "fold_e (rate_step py (parameters_rules (model s)) (par_vals ! i))
          (kept_rate_args (reactions (model s) ! j)) 1 = Inr rate"
    and cij: "c ! i ! j = rate * nv powi (n - 1)"
    by (auto simp: cmatrix_cell_def split: sum.splits)
  from row f cij n_eq show ?thesis by simp
qed

lemma example_cmatrix:
  "get_cmatrix example_python example_sim = Inr [[6 * N_A, 5 * inverse N_A / 4]]"
  by (simp add: get_cmatrix_def example_sim_def example_model_def rate_mask_def mask_columns_def
     count_reactants_def nth_e_def kept_rate_args_def len_rxns_def cmatrix_cell_def rate_step_def
     par_dict_def vol_scale_def example_python_def)

lemma rate_sim_cmatrix:
  "get_cmatrix example_python rate_sim = Inr [[6 * N_A, 1, 5 * inverse N_A / 4, 11]]"
  by (simp add: get_cmatrix_def rate_sim_def example_sim_def rate_network_def rate_mask_def
     mask_columns_def count_reactants_def nth_e_def kept_rate_args_def len_rxns_def
     cmatrix_cell_def rate_step_def par_dict_def vol_scale_def example_python_def)

lemma rate_sim_claimed:
  "claimed_cell example_python rate_sim 2 0 0 = Some (6 * N_A)"
  "claimed_cell example_python rate_sim 2 0 1 = Some 7"
  "claimed_cell example_python rate_sim 2 0 2 = Some (5 * inverse N_A / 4)"
  "claimed_cell example_python rate_sim 2 0 3 = Some 11"
  by (simp_all add: claimed_cell_def claimed_rate_factor_def parameter_value_def
      species_placeholder_def is_digit_def reactant_count_def rate_sim_def example_sim_def
      rate_network_def example_python_def)

lemma species_placeholder_matches: "species_placeholder x \<Longrightarrow> match_underscores_s x"
proof (induction x)
  case Nil
  then show ?case by (simp add: species_placeholder_def)
next
  case (Cons c cs)
  show ?case
  proof (cases "c = CHR ''_''")
    case True
    with Cons.prems have "species_placeholder cs"
      by (simp add: species_placeholder_def)
    with True Cons.IH show ?thesis by simp
  next
    case False
    with Cons.prems show ?thesis
      by (simp add: species_placeholder_def)
  qed
qed

lemma par_dict_fold:
  "fold (\<lambda>i d. d(names ! i \<mapsto> i)) [0..<n] Map.empty x = Some k \<Longrightarrow> k < n \<and> names ! k = x"
proof (induction n)
  case 0
  then show ?case by simp
next
  case (Suc n)
  then show ?case
    by (auto simp: less_Suc_eq split: if_splits)
qed

lemma par_dict_Some: "par_dict names x = Some k \<Longrightarrow> k < length names \<and> names ! k = x"
  unfolding par_dict_def by (rule par_dict_fold)

lemma masked_zip:
  "length row = length ps \<Longrightarrow>
   zip (filter P ps) (map fst (filter snd (zip row (map P ps))))
   = filter (\<lambda>pv. P (fst pv)) (zip ps row)"
proof (induction ps arbitrary: row)
  case Nil
  then show ?case by simp
next
  case (Cons p ps)
  then obtain v vs where "row = v # vs" "length vs = length ps"
    by (cases row) auto
  with Cons.IH [of vs] show ?case by simp
qed

lemma masked_length:
  "length row = length ps \<Longrightarrow>
   length (map fst (filter snd (zip row (map P ps)))) = length (filter P ps)"
proof (induction ps arbitrary: row)
  case Nil
  then show ?case by simp
next
  case (Cons p ps)
  then obtain v vs where "row = v # vs" "length vs = length ps"
    by (cases row) auto
  with Cons.IH [of vs] show ?case by simp
qed

lemma map_of_filter_other: "\<not> P k \<Longrightarrow> map_of (filter (\<lambda>pv. P (fst pv)) xs) k = None"
  by (induction xs) auto

lemma map_of_filter_key:
  "map_of (filter (\<lambda>pv. P (fst pv)) xs) k = Some v \<Longrightarrow> map_of xs k = Some v"
  by (induction xs) (auto simp: map_of_filter_other split: if_splits)

lemma those_map_e:
  assumes "map_e f xs = Inr vals"
    and "\<And>x v. x \<in> set xs \<Longrightarrow> f x = Inr v \<Longrightarrow> g x = Some v"
  shows "those (map g xs) = Some vals"
  using assms
proof (induction xs arbitrary: vals)
  case Nil
  then show ?case by simp
next
  case (Cons x xs)
  from Cons.prems(1) obtain v vs where v: "f x = Inr v" and vs: "map_e f xs = Inr vs"
    and vals: "vals = v # vs"
    by (auto split: sum.splits)
  from Cons.prems(2) [of x v] v have "g x = Some v" by simp
  moreover have "those (map g xs) = Some vs"
    using vs Cons.prems(2) by (intro Cons.IH) auto
  ultimately show ?case using vals by simp
qed

lemma rate_step_parameter_value:
  assumes "mask_columns (rate_mask (model s)) (param_values s ! i) = Inr row"
    and "distinct (parameters (model s))"
    and "parameters_rules (model s)
         = filter (\<lambda>p. p \<in> set (parameters_rules (model s))) (parameters (model s))"
    and "x \<in> set (parameters (model s)) \<longrightarrow> x \<in> set (parameters_rules (model s))"
    and "rate_step py (parameters_rules (model s)) row x 1 = Inr v"
  shows "claimed_rate_factor py s i x = Some v"
proof (cases "x \<in> set (parameters_rules (model s))")
  case False
  with assms(4) have "x \<notin> set (parameters (model s))" by blast
  with False assms(5) show ?thesis
    by (auto simp: rate_step_def claimed_rate_factor_def split: option.splits)
next
  case True
  let ?ps = "parameters (model s)"
  let ?rs = "parameters_rules (model s)"
  let ?P = "\<lambda>p. p \<in> set ?rs"
  let ?pv = "param_values s ! i"
  from assms(1) have len: "length ?pv = length ?ps"
    and row: "row = map fst (filter snd (zip ?pv (map ?P ?ps)))"
    by (auto simp: mask_columns_def rate_mask_def split: if_splits)
  from True assms(5) obtain k where k: "par_dict ?rs x = Some k" and kr: "k < length row"
    and v: "v = row ! k"
    by (auto simp: rate_step_def nth_e_def split: option.splits if_splits)
  from par_dict_Some [OF k] have kn: "k < length ?rs" and xk: "?rs ! k = x"
    by simp_all
  have lr: "length row = length ?rs"
    using masked_length [OF len, of ?P] assms(3) row by simp
  from assms(2,3) have dr: "distinct ?rs"
    by (metis distinct_filter)
  from map_of_zip_nth [OF lr [symmetric] dr kr] xk v
  have "map_of (zip ?rs row) x = Some v" by simp
  moreover have "zip ?rs row = filter (\<lambda>pv. ?P (fst pv)) (zip ?ps ?pv)"
    using masked_zip [OF len, of ?P] assms(3) row by simp
  ultimately have "map_of (zip ?ps ?pv) x = Some v"
    by (auto dest: map_of_filter_key)
  moreover from True assms(3) have "x \<in> set ?ps"
    by (metis filter_is_subset subsetD)
  ultimately show ?thesis
    by (simp add: claimed_rate_factor_def parameter_value_def)
qed

text \<open>
  Where the compiler's filter drops species placeholders only, it computes the claimed
  matrix: for a volume that is not zero, parameters with distinct names, the rule
  parameters listed in the order of the parameters, and a reaction whose rate arguments
  match \<open>_*s\<close> only if they are species placeholders and name a parameter only if it
  is a rule parameter, the cell is the claimed one.
\<close>

lemma get_cmatrix_agrees:
  assumes "get_cmatrix py s = Inr c" and "vol s = Some v" and "v \<noteq> 0"
    and "i < length (param_values s)" and "j < length (reactions (model s))"
    and "distinct (parameters (model s))"
    and "parameters_rules (model s)
         = filter (\<lambda>p. p \<in> set (parameters_rules (model s))) (parameters (model s))"
    and "\<forall>x \<in> set (rate_args (reactions (model s) ! j)).
           (match_underscores_s x \<longrightarrow> species_placeholder x)
           \<and> (x \<in> set (parameters (model s)) \<longrightarrow> x \<in> set (parameters_rules (model s)))"
  shows "claimed_cell py s v i j = Some (c ! i ! j)"
proof -
  let ?args = "rate_args (reactions (model s) ! j)"
  from assms(2,3) have vs: "vol_scale s = Some (N_A * v)"
    by (simp add: vol_scale_def)
  from get_cmatrix_volume_factor [OF assms(1) vs assms(4,5)] obtain row rate where
    row: "mask_columns (rate_mask (model s)) (param_values s ! i) = Inr row"
    and f: "fold_e (rate_step py (parameters_rules (model s)) row)
              (kept_rate_args (reactions (model s) ! j)) 1 = Inr rate"
    and cij: "c ! i ! j = rate * (N_A * v) powi (int (reactant_count (model s) j) - 1)"
    by blast
  have kept: "kept_rate_args (reactions (model s) ! j)
              = filter (\<lambda>x. \<not> species_placeholder x) ?args"
    unfolding kept_rate_args_def
    using assms(8) by (intro filter_cong) (auto dest: species_placeholder_matches)
  from fold_rate_step [OF f] obtain vals where
    vals: "map_e (\<lambda>x. rate_step py (parameters_rules (model s)) row x 1)
             (filter (\<lambda>x. \<not> species_placeholder x) ?args) = Inr vals"
    and rate: "rate = prod_list vals"
    by (auto simp: kept)
  have "those (map (claimed_rate_factor py s i) (filter (\<lambda>x. \<not> species_placeholder x) ?args))
        = Some vals"
  proof (rule those_map_e [OF vals])
    fix x w
    assume "x \<in> set (filter (\<lambda>x. \<not> species_placeholder x) ?args)"
      and "rate_step py (parameters_rules (model s)) row x 1 = Inr w"
    with assms(8) show "claimed_rate_factor py s i x = Some w"
      by (intro rate_step_parameter_value [OF row assms(6,7)]) auto
  qed
  with rate cij show ?thesis
    by (simp add: claimed_cell_def)
qed

lemma rate_sim_agrees:
  "claimed_cell example_python rate_sim 2 0 3 = Some ([[6 * N_A, 1, 5 * inverse N_A / 4, 11]] ! 0 ! 3)"
proof -
  have a: "vol rate_sim = Some 2" "(2::real) \<noteq> 0" "0 < length (param_values rate_sim)"
    "3 < length (reactions (model rate_sim))" "distinct (parameters (model rate_sim))"
    by (simp_all add: rate_sim_def example_sim_def rate_network_def)
  have b: "parameters_rules (model rate_sim)
         = filter (\<lambda>p. p \<in> set (parameters_rules (model rate_sim))) (parameters (model rate_sim))"
    by (simp add: rate_sim_def example_sim_def rate_network_def)
  have c: "\<forall>x \<in> set (rate_args (reactions (model rate_sim) ! 3)).
           (match_underscores_s x \<longrightarrow> species_placeholder x)
           \<and> (x \<in> set (parameters (model rate_sim)) \<longrightarrow> x \<in> set (parameters_rules (model rate_sim)))"
    by (simp add: rate_sim_def example_sim_def rate_network_def species_placeholder_def is_digit_def)
  show ?thesis
    by (rule get_cmatrix_agrees [OF rate_sim_cmatrix a b c])
qed

text \<open>
  Claim C2. The compiler does not compute the claimed matrix for a reaction whose rate
  parameter has a name that begins with the letter s. The filter that is to drop the
  species placeholders \<open>__s0\<close>, \<open>__s1\<close>, ... tests \<open>re.match("_*s", str(arg))\<close>, with no
  digits after the s, so it drops the rate parameter \<open>sink\<close> as well. With the volume 2,
  the removal of B, whose one reactant is not the source, has the claimed rate
  \<open>7 * (N_A * 2) ^ 0 = 7\<close>, and the compiler writes 1. The other three cells are the
  claimed ones.
\<close>

theorem get_cmatrix_drops_rate_parameter:
  "vol rate_sim = Some 2
   \<and> rate_args (reactions (model rate_sim) ! 1) = [''sink'', ''__s2'']
   \<and> parameter_value rate_sim 0 ''sink'' = Some 7
   \<and> reactant_count (model rate_sim) 1 = 1
   \<and> claimed_cell example_python rate_sim 2 0 1 = Some 7
   \<and> get_cmatrix example_python rate_sim = Inr [[6 * N_A, 1, 5 * inverse N_A / 4, 11]]
   \<and> map (claimed_cell example_python rate_sim 2 0) [0, 2, 3]
       = [Some (6 * N_A), Some (5 * inverse N_A / 4), Some 11]"
proof -
  have a: "vol rate_sim = Some 2"
    "rate_args (reactions (model rate_sim) ! 1) = [''sink'', ''__s2'']"
    "parameter_value rate_sim 0 ''sink'' = Some 7"
    "reactant_count (model rate_sim) 1 = 1"
    by (simp_all add: rate_sim_def example_sim_def rate_network_def parameter_value_def
        reactant_count_def)
  from a rate_sim_cmatrix rate_sim_claimed show ?thesis
    by simp
qed

subsection \<open>The filter of the rate arguments\<close>










subsection \<open>Rows and separators\<close>

lemma join_snoc: "join sep (xs @ [x]) = (if xs = [] then x else join sep xs @ sep @ x)"
  by (induction sep xs rule: join.induct) auto

lemma fold_separator_before:
  "fold (\<lambda>j line. (if j > 0 then line @ sep else line) @ f j) [0..<m] [] = join sep (map f [0..<m])"
proof (induction m)
  case 0
  then show ?case by simp
next
  case (Suc m)
  have "fold (\<lambda>j line. (if j > 0 then line @ sep else line) @ f j) [0..<Suc m] []
        = (if m > 0 then join sep (map f [0..<m]) @ sep else join sep (map f [0..<m])) @ f m"
    by (simp add: Suc.IH)
  also have "\<dots> = join sep (map f [0..<m] @ [f m])"
    by (simp add: join_snoc)
  finally show ?case by simp
qed

lemma fold_separator_after_prefix:
  assumes "m < n"
  shows "fold (\<lambda>i file. let file = file @ f i
                         in if int i < int n - 1 then file @ sep else file) [0..<m] []
         = concat (map (\<lambda>i. f i @ sep) [0..<m])"
  using assms
proof (induction m)
  case 0
  then show ?case by simp
next
  case (Suc m)
  then have "int m < int n - 1" by simp
  with Suc show ?case by (simp add: Let_def)
qed

lemma concat_separator: "concat (map (\<lambda>i. f i @ sep) xs) @ f x = join sep (map f (xs @ [x]))"
proof (induction xs)
  case Nil
  then show ?case by simp
next
  case (Cons y ys)
  then show ?case by (cases ys) simp_all
qed

lemma fold_separator_after:
  "fold (\<lambda>i file. let file = file @ f i
                   in if int i < int n - 1 then file @ sep else file) [0..<n] []
   = join sep (map f [0..<n])"
proof (cases n)
  case 0
  then show ?thesis by simp
next
  case (Suc m)
  have "m < n" using Suc by simp
  from fold_separator_after_prefix [OF this, of f sep] Suc
  show ?thesis
    by (simp add: Let_def concat_separator [of f sep "[0..<m]" m, simplified])
qed

lemma fold_e_eq_fold:
  assumes "\<And>x a b. x \<in> set xs \<Longrightarrow> f x a = Inr b \<Longrightarrow> b = g x a"
    and "fold_e f xs a = Inr r"
  shows "r = fold g xs a"
  using assms
proof (induction xs arbitrary: a)
  case Nil
  then show ?case by simp
next
  case (Cons x xs)
  from Cons.prems(2) obtain b where b: "f x a = Inr b" and r: "fold_e f xs b = Inr r"
    by (auto split: sum.splits)
  from Cons.prems(1) [of x a b] b have "b = g x a" by simp
  moreover have "r = fold g xs b"
    using Cons.prems(1) r by (intro Cons.IH) auto
  ultimately show ?case by simp
qed

lemma fold_separator_after_line:
  "fold (\<lambda>i file. if int i < int n - 1 then file @ f i @ sep else file @ f i) [0..<n] []
   = join sep (map f [0..<n])"
proof -
  have "(\<lambda>i file. if int i < int n - 1 then file @ f i @ sep else file @ f i)
        = (\<lambda>i file. let file = file @ f i in if int i < int n - 1 then file @ sep else file)"
    by (simp add: fun_eq_iff Let_def)
  then have "fold (\<lambda>i file. if int i < int n - 1 then file @ f i @ sep else file @ f i) [0..<n] []
        = fold (\<lambda>i file. let file = file @ f i in if int i < int n - 1 then file @ sep else file)
            [0..<n] []"
    by (rule arg_cong)
  also have "\<dots> = join sep (map f [0..<n])"
    by (rule fold_separator_after)
  finally show ?thesis .
qed

lemma fold_append_rows:
  "fold (\<lambda>t file. file @ f t @ sep) ts acc = acc @ concat (map (\<lambda>t. f t @ sep) ts)"
  by (induction ts arbitrary: acc) simp_all

subsection \<open>The files one by one\<close>

lemma write_atol_vector_eq:
  "write_atol_vector py s = join newline (replicate (len_species s) (str_of_float py (atol s)))"
proof -
  have "write_atol_vector py s
        = join newline (map (\<lambda>i. str_of_float py (atol s)) [0..<len_species s])"
    unfolding write_atol_vector_def by (rule fold_separator_after)
  then show ?thesis by (simp add: map_replicate_const)
qed

lemma write_cs_vector_eq: "write_cs_vector out = join newline (map str_nat out)"
proof -
  have "write_cs_vector out = join newline (map (\<lambda>i. str_nat (out ! i)) [0..<length out])"
    unfolding write_cs_vector_def by (rule fold_separator_before)
  also have "map (\<lambda>i. str_nat (out ! i)) [0..<length out] = map str_nat out"
    by (rule nth_equalityI) simp_all
  finally show ?thesis .
qed

lemma stoichiometry_fold:
  "fold (\<lambda>k stoich. if j = k then stoich + 1 else stoich) ks a = a + count_list ks j"
  by (induction ks arbitrary: a) auto

lemma stoichiometry_eq: "stoichiometry ks j = count_list ks j"
  by (simp add: stoichiometry_def stoichiometry_fold)

lemma write_side_eq:
  "write_side s side =
     join newline (map (\<lambda>rxn. join tab (map (\<lambda>j. str_nat (count_list (side rxn) j))
                                             [0..<len_species s]))
                       (reactions (model s)))"
proof -
  have line: "fold (\<lambda>j line. (if j > 0 then line @ tab else line) @
                               str_nat (stoichiometry (side (reactions (model s) ! i)) j))
                 [0..<len_species s] []
        = join tab (map (\<lambda>j. str_nat (count_list (side (reactions (model s) ! i)) j))
                     [0..<len_species s])" for i
    unfolding stoichiometry_eq by (rule fold_separator_before)
  have "write_side s side =
     fold (\<lambda>i file.
             if int i < int (len_rxns s) - 1
             then file @ join tab (map (\<lambda>j. str_nat (count_list (side (reactions (model s) ! i)) j))
                     [0..<len_species s]) @ newline
             else file @ join tab (map (\<lambda>j. str_nat (count_list (side (reactions (model s) ! i)) j))
                     [0..<len_species s]))
       [0..<len_rxns s] []"
    unfolding write_side_def Let_def line ..
  also have "\<dots> = join newline
       (map (\<lambda>i. join tab (map (\<lambda>j. str_nat (count_list (side (reactions (model s) ! i)) j))
                                 [0..<len_species s])) [0..<len_rxns s])"
    by (rule fold_separator_after_line)
  also have "map (\<lambda>i. join tab (map (\<lambda>j. str_nat (count_list (side (reactions (model s) ! i)) j))
                                 [0..<len_species s])) [0..<len_rxns s]
        = map (\<lambda>rxn. join tab (map (\<lambda>j. str_nat (count_list (side rxn) j)) [0..<len_species s]))
              (reactions (model s))"
    by (rule nth_equalityI) (simp_all add: len_rxns_def)
  finally show ?thesis .
qed

lemma write_t_vector_eq:
  "write_t_vector py s = concat (map (\<lambda>t. str_of_float py t @ newline) (tspan s))"
  by (simp add: write_t_vector_def fold_append_rows)

lemma write_matrix_line_eq:
  assumes "write_matrix_line py m n_cols i = Inr line"
  shows "line = join tab (map (\<lambda>j. str_of_float py (m ! i ! j)) [0..<n_cols])"
proof -
  have "line = fold (\<lambda>j line. (if j > 0 then line @ tab else line) @ str_of_float py (m ! i ! j))
                 [0..<n_cols] []"
    by (rule fold_e_eq_fold [OF _ assms [unfolded write_matrix_line_def]])
       (auto simp: nth_e_def split: sum.splits if_splits)
  also have "\<dots> = join tab (map (\<lambda>j. str_of_float py (m ! i ! j)) [0..<n_cols])"
    by (rule fold_separator_before)
  finally show ?thesis .
qed

lemma write_matrix_eq:
  assumes "write_matrix py m n_rows n_cols = Inr text"
  shows "text = join newline
           (map (\<lambda>i. join tab (map (\<lambda>j. str_of_float py (m ! i ! j)) [0..<n_cols])) [0..<n_rows])"
proof -
  have "text = fold (\<lambda>i file.
             let file = file @ join tab (map (\<lambda>j. str_of_float py (m ! i ! j)) [0..<n_cols])
             in if int i < int n_rows - 1 then file @ newline else file) [0..<n_rows] []"
    by (rule fold_e_eq_fold [OF _ assms [unfolded write_matrix_def]])
       (auto split: sum.splits dest!: write_matrix_line_eq)
  also have "\<dots> = join newline
           (map (\<lambda>i. join tab (map (\<lambda>j. str_of_float py (m ! i ! j)) [0..<n_cols])) [0..<n_rows])"
    by (rule fold_separator_after)
  finally show ?thesis .
qed

subsection \<open>The output-species selector\<close>

lemma mark_one_observable:
  assumes "fold_e (\<lambda>i flags. if i < length flags then Inr (flags[i := True])
                                  else Inl IndexError) ob flags = Inr flags'"
  shows "length flags' = length flags
    \<and> (\<forall>i < length flags. flags' ! i \<longleftrightarrow> flags ! i \<or> i \<in> set ob)
    \<and> (\<forall>i \<in> set ob. i < length flags)"
  using assms
proof (induction ob arbitrary: flags)
  case Nil
  then show ?case by simp
next
  case (Cons k ob)
  from Cons.prems have k: "k < length flags"
    and rest: "fold_e (\<lambda>i flags. if i < length flags then Inr (flags[i := True])
                                  else Inl IndexError) ob (flags[k := True]) = Inr flags'"
    by (auto split: if_splits)
  from Cons.IH [OF rest] k show ?case
    by (auto simp: nth_list_update)
qed

lemma mark_one_observable_returns:
  "\<forall>i \<in> set ob. i < length flags \<Longrightarrow>
   \<exists>flags'. fold_e (\<lambda>i flags. if i < length flags then Inr (flags[i := True])
                                  else Inl IndexError) ob flags = Inr flags'"
  by (induction ob arbitrary: flags) simp_all

lemma mark_all_observables:
  assumes "fold_e (\<lambda>ob flags.
               fold_e (\<lambda>i flags. if i < length flags then Inr (flags[i := True])
                                  else Inl IndexError) ob flags) obs flags = Inr flags'"
  shows "length flags' = length flags
    \<and> (\<forall>i < length flags. flags' ! i \<longleftrightarrow> flags ! i \<or> i \<in> \<Union> (set ` set obs))
    \<and> (\<forall>ob \<in> set obs. \<forall>i \<in> set ob. i < length flags)"
  using assms
proof (induction obs arbitrary: flags)
  case Nil
  then show ?case by simp
next
  case (Cons ob obs)
  from Cons.prems obtain mid where
    one: "fold_e (\<lambda>i flags. if i < length flags then Inr (flags[i := True])
                                  else Inl IndexError) ob flags = Inr mid"
    and rest: "fold_e (\<lambda>ob flags.
               fold_e (\<lambda>i flags. if i < length flags then Inr (flags[i := True])
                                  else Inl IndexError) ob flags) obs mid = Inr flags'"
    by (auto split: sum.splits)
  from mark_one_observable [OF one] Cons.IH [OF rest] show ?case
    by auto
qed

lemma mark_all_observables_returns:
  "\<forall>ob \<in> set obs. \<forall>i \<in> set ob. i < length flags \<Longrightarrow>
   \<exists>flags'. fold_e (\<lambda>ob flags.
               fold_e (\<lambda>i flags. if i < length flags then Inr (flags[i := True])
                                  else Inl IndexError) ob flags) obs flags = Inr flags'"
proof (induction obs arbitrary: flags)
  case Nil
  then show ?case by simp
next
  case (Cons ob obs)
  then have "\<forall>i \<in> set ob. i < length flags" by simp
  from mark_one_observable_returns [OF this] obtain mid where
    one: "fold_e (\<lambda>i flags. if i < length flags then Inr (flags[i := True])
                                  else Inl IndexError) ob flags = Inr mid"
    by blast
  from mark_one_observable [OF one] have "length mid = length flags" by simp
  with Cons.prems have "\<forall>ob \<in> set obs. \<forall>i \<in> set ob. i < length mid" by simp
  from Cons.IH [OF this] one show ?case by simp
qed

lemma out_species_observed:
  assumes "obs_species_only s" and "out_species s = Inr out"
  shows "set out = \<Union> (set ` set (observables (model s)))"
    and "sorted_wrt (<) out"
proof -
  from assms obtain flags where
    m: "mark_observed (length (species (model s))) (observables (model s)) = Inr flags"
    and out: "out = filter (\<lambda>i. flags ! i) [0..<len_species s]"
    by (auto simp: out_species_def split: sum.splits)
  from mark_all_observables [OF m [unfolded mark_observed_def]]
  have f: "\<forall>i < len_species s. flags ! i \<longleftrightarrow> i \<in> \<Union> (set ` set (observables (model s)))"
    and r: "\<forall>ob \<in> set (observables (model s)). \<forall>i \<in> set ob. i < len_species s"
    by (simp_all add: len_species_def)
  show "set out = \<Union> (set ` set (observables (model s)))"
    unfolding out using f r by auto
  show "sorted_wrt (<) out"
    unfolding out by (rule sorted_wrt_filter) simp
qed

lemma out_species_returns:
  assumes "\<forall>ob \<in> set (observables (model s)). \<forall>i \<in> set ob. i < len_species s"
  shows "\<exists>out. out_species s = Inr out"
proof (cases "obs_species_only s")
  case False
  then show ?thesis by (simp add: out_species_def)
next
  case True
  from assms have "\<forall>ob \<in> set (observables (model s)). \<forall>i \<in> set ob.
      i < length (replicate (length (species (model s))) False)"
    by (simp add: len_species_def)
  from mark_all_observables_returns [OF this] True show ?thesis
    by (auto simp: out_species_def mark_observed_def)
qed

lemma create_input_files_parts:
  assumes "create_input_files py s = Inr (files, out)"
  shows "\<exists>cmtx f_c mx0 f_mx0 f_tmax.
    get_cmatrix py s = Inr cmtx
    \<and> write_matrix py cmtx (n_sims s) (len_rxns s) = Inr f_c
    \<and> out_species s = Inr out
    \<and> scaled_initials s = Inr mx0
    \<and> write_matrix py mx0 (n_sims s) (len_species s) = Inr f_mx0
    \<and> write_time_max py s = Inr f_tmax
    \<and> files = \<lparr>atol_vector = write_atol_vector py s, c_matrix = f_c,
          cs_vector = write_cs_vector out, left_side = write_side s reactants,
          f_max_steps = str_int (max_steps s), modelkind = ''deterministic'', MX_0 = f_mx0,
          right_side = write_side s products, f_rtol = str_of_float py (rtol s),
          t_vector = write_t_vector py s, time_max = f_tmax\<rparr>"
  using assms unfolding create_input_files_def Let_def
  by (auto split: sum.splits)


lemma example_c_matrix_text:
  "write_matrix example_python [[6 * N_A, 5 * inverse N_A / 4]] (n_sims example_sim) (len_rxns example_sim)
   = Inr (''?'' @ tab @ ''?'')"
  by (simp add: write_matrix_def write_matrix_line_def nth_e_def example_python_def N_A_def
      n_sims_def len_rxns_def example_sim_def example_model_def)

lemma example_out_species: "out_species example_sim = Inr [1]"
  by (simp add: out_species_def example_sim_def example_model_def mark_observed_def len_species_def)

lemma example_scaled_initials: "scaled_initials example_sim = Inr [[1, 4 / N_A, 0]]"
  by (simp add: scaled_initials_def example_sim_def example_model_def vol_scale_def set_column_def)

lemma example_MX_0_text:
  "write_matrix example_python [[1, 4 / N_A, 0]] (n_sims example_sim) (len_species example_sim)
   = Inr (''1.0'' @ tab @ ''?'' @ tab @ ''0.0'')"
  by (simp add: write_matrix_def write_matrix_line_def nth_e_def example_python_def N_A_def
      n_sims_def len_species_def example_sim_def example_model_def eval_nat_numeral)

lemma example_side_files:
  "write_side example_sim reactants
     = ''0'' @ tab @ ''1'' @ tab @ ''1'' @ newline @ ''1'' @ tab @ ''0'' @ tab @ ''0''"
  "write_side example_sim products
     = ''0'' @ tab @ ''0'' @ tab @ ''1'' @ newline @ ''1'' @ tab @ ''1'' @ tab @ ''0''"
  by (simp_all add: write_side_def example_sim_def example_model_def len_rxns_def len_species_def
      stoichiometry_def str_nat.simps digit_char_def)

lemma example_small_files:
  "write_atol_vector example_python example_sim = ''1e-08'' @ newline @ ''1e-08'' @ newline @ ''1e-08''"
  "str_int (max_steps example_sim) = ''20000''"
  "str_of_float example_python (rtol example_sim) = ''1e-08''"
  "write_t_vector example_python example_sim = ''0.0'' @ newline @ ''1.0'' @ newline"
  "write_time_max example_python example_sim = Inr ''1.0''"
  by (simp_all add: write_atol_vector_def write_cs_vector_def str_int_def write_t_vector_def
      write_time_max_def example_python_def example_sim_def example_model_def len_species_def
      str_nat.simps digit_char_def)

lemma example_cs_vector: "write_cs_vector [Suc 0] = ''1''"
  by (simp add: write_cs_vector_def) (simp add: str_nat.simps digit_char_def)

lemma example_input_files:
  "create_input_files example_python example_sim = Inr (example_files, [1])"
  unfolding create_input_files_def Let_def
  by (simp add: example_cmatrix example_c_matrix_text example_out_species example_scaled_initials
      example_MX_0_text example_side_files example_small_files example_cs_vector example_files_def)

text \<open>
  Claim C3. With observables-only mode off the selector is the full index range
  \<open>[0, n_species)\<close>. With the mode on, the selector the function computes holds
  exactly the species indices some observable refers to, in increasing order, and it does
  compute one whenever every index an observable refers to is a species index. The file
  \<open>cs_vector\<close> has the selector's indices, one per line.
\<close>

theorem out_species_selector:
  "(\<not> obs_species_only s \<longrightarrow> out_species s = Inr [0..<len_species s])
   \<and> (obs_species_only s \<and> out_species s = Inr out \<longrightarrow>
        set out = \<Union> (set ` set (observables (model s))) \<and> sorted_wrt (<) out)
   \<and> ((\<forall>ob \<in> set (observables (model s)). \<forall>i \<in> set ob. i < len_species s) \<longrightarrow>
        (\<exists>out'. out_species s = Inr out'))
   \<and> (create_input_files py s = Inr (files, sel) \<longrightarrow>
        out_species s = Inr sel \<and> cs_vector files = join newline (map str_nat sel))"
proof -
  have a: "\<not> obs_species_only s \<longrightarrow> out_species s = Inr [0..<len_species s]"
    by (simp add: out_species_def)
  have b: "obs_species_only s \<and> out_species s = Inr out \<longrightarrow>
        set out = \<Union> (set ` set (observables (model s))) \<and> sorted_wrt (<) out"
    using out_species_observed by blast
  have c: "(\<forall>ob \<in> set (observables (model s)). \<forall>i \<in> set ob. i < len_species s) \<longrightarrow>
        (\<exists>out'. out_species s = Inr out')"
    using out_species_returns by blast
  have d: "create_input_files py s = Inr (files, sel) \<longrightarrow>
        out_species s = Inr sel \<and> cs_vector files = join newline (map str_nat sel)"
  proof
    assume "create_input_files py s = Inr (files, sel)"
    from create_input_files_parts [OF this]
    show "out_species s = Inr sel \<and> cs_vector files = join newline (map str_nat sel)"
      by (auto simp: write_cs_vector_eq)
  qed
  from a b c d show ?thesis by blast
qed

theorem out_species_selector_witness:
  "out_species (example_sim\<lparr>obs_species_only := False\<rparr>) = Inr [0..<3]
   \<and> out_species example_sim = Inr [1]
   \<and> set [1::nat] = \<Union> (set ` set (observables (model example_sim)))
   \<and> cs_vector example_files = join newline (map str_nat [1])"
proof -
  note F = out_species_selector
    [where s = "example_sim\<lparr>obs_species_only := False\<rparr>" and out = "[1]"
       and py = example_python and files = example_files and sel = "[1]"]
  note T = out_species_selector
    [where s = example_sim and out = "[1]" and py = example_python and files = example_files
       and sel = "[1]"]
  have m: "\<not> obs_species_only (example_sim\<lparr>obs_species_only := False\<rparr>)"
    by simp
  have l: "len_species (example_sim\<lparr>obs_species_only := False\<rparr>) = 3"
    by (simp add: len_species_def example_sim_def example_model_def)
  from F m l have a: "out_species (example_sim\<lparr>obs_species_only := False\<rparr>) = Inr [0..<3]"
    by simp
  have o: "obs_species_only example_sim"
    by (simp add: example_sim_def)
  have r: "\<forall>ob \<in> set (observables (model example_sim)). \<forall>i \<in> set ob. i < len_species example_sim"
    by (simp add: len_species_def example_sim_def example_model_def)
  have c: "create_input_files example_python example_sim = Inr (example_files, [1])"
    by (rule example_input_files)
  from T c have b: "out_species example_sim = Inr [1]"
    and d: "cs_vector example_files = join newline (map str_nat [1])"
    by blast+
  from T o b have e: "set [1::nat] = \<Union> (set ` set (observables (model example_sim)))"
    by blast
  from a b e d show ?thesis by blast
qed

subsection \<open>The layout of the input files\<close>

lemma join_ends_with_last_row: "rows \<noteq> [] \<Longrightarrow> \<exists>before. join sep rows = before @ last rows"
proof (induction sep rows rule: join.induct)
  case (1 sep)
  then show ?case by simp
next
  case (2 sep x)
  then show ?case by simp
next
  case (3 sep x y ys)
  then obtain before where "join sep (y # ys) = before @ last (y # ys)"
    by auto
  then have "join sep (x # y # ys) = (x @ sep @ before) @ last (x # y # ys)"
    by simp
  then show ?case by blast
qed

text \<open>
  Claim C8, as the code has it. Ten of the eleven files are their rows joined by
  newlines, each row its cells joined by tabs, so nothing follows the final row:
  \<open>atol_vector\<close>, \<open>c_matrix\<close>, \<open>cs_vector\<close>, \<open>left_side\<close>, \<open>right_side\<close>,
  \<open>MX_0\<close>, and the single values \<open>max_steps\<close>, \<open>modelkind\<close>, \<open>rtol\<close> and
  \<open>time_max\<close>. The file \<open>t_vector\<close> has a newline after every time value, the last
  one too.
\<close>

theorem input_files_layout:
  assumes "create_input_files py s = Inr (files, out)"
  shows "atol_vector files = join newline (replicate (len_species s) (str_of_float py (atol s)))
    \<and> (\<exists>cmtx. get_cmatrix py s = Inr cmtx
          \<and> c_matrix files =
              join newline (map (\<lambda>i. join tab (map (\<lambda>j. str_of_float py (cmtx ! i ! j))
                                                    [0..<len_rxns s])) [0..<n_sims s]))
    \<and> cs_vector files = join newline (map str_nat out)
    \<and> left_side files =
          join newline (map (\<lambda>rxn. join tab (map (\<lambda>j. str_nat (count_list (reactants rxn) j))
                                                  [0..<len_species s]))
                            (reactions (model s)))
    \<and> f_max_steps files = str_int (max_steps s)
    \<and> modelkind files = ''deterministic''
    \<and> (\<exists>mx0. scaled_initials s = Inr mx0
          \<and> MX_0 files =
              join newline (map (\<lambda>i. join tab (map (\<lambda>j. str_of_float py (mx0 ! i ! j))
                                                    [0..<len_species s])) [0..<n_sims s]))
    \<and> right_side files =
          join newline (map (\<lambda>rxn. join tab (map (\<lambda>j. str_nat (count_list (products rxn) j))
                                                  [0..<len_species s]))
                            (reactions (model s)))
    \<and> f_rtol files = str_of_float py (rtol s)
    \<and> time_max files = str_of_float py (last (tspan s))
    \<and> t_vector files = concat (map (\<lambda>t. str_of_float py t @ newline) (tspan s))"
proof -
  from create_input_files_parts [OF assms] obtain cmtx f_c mx0 f_mx0 f_tmax where
    cm: "get_cmatrix py s = Inr cmtx"
    and fc: "write_matrix py cmtx (n_sims s) (len_rxns s) = Inr f_c"
    and mx: "scaled_initials s = Inr mx0"
    and fm: "write_matrix py mx0 (n_sims s) (len_species s) = Inr f_mx0"
    and tm: "write_time_max py s = Inr f_tmax"
    and files: "files = \<lparr>atol_vector = write_atol_vector py s, c_matrix = f_c,
          cs_vector = write_cs_vector out, left_side = write_side s reactants,
          f_max_steps = str_int (max_steps s), modelkind = ''deterministic'', MX_0 = f_mx0,
          right_side = write_side s products, f_rtol = str_of_float py (rtol s),
          t_vector = write_t_vector py s, time_max = f_tmax\<rparr>"
    by blast
  have 1: "atol_vector files = join newline (replicate (len_species s) (str_of_float py (atol s)))"
    by (simp add: files write_atol_vector_eq)
  have 2: "\<exists>cmtx. get_cmatrix py s = Inr cmtx
          \<and> c_matrix files =
              join newline (map (\<lambda>i. join tab (map (\<lambda>j. str_of_float py (cmtx ! i ! j))
                                                    [0..<len_rxns s])) [0..<n_sims s])"
    using cm write_matrix_eq [OF fc] by (simp add: files)
  have 3: "cs_vector files = join newline (map str_nat out)"
    by (simp add: files write_cs_vector_eq)
  have 4: "left_side files =
          join newline (map (\<lambda>rxn. join tab (map (\<lambda>j. str_nat (count_list (reactants rxn) j))
                                                  [0..<len_species s]))
                            (reactions (model s)))"
    by (simp add: files write_side_eq)
  have 5: "f_max_steps files = str_int (max_steps s)"
    by (simp add: files)
  have 6: "modelkind files = ''deterministic''"
    by (simp add: files)
  have 7: "\<exists>mx0. scaled_initials s = Inr mx0
          \<and> MX_0 files =
              join newline (map (\<lambda>i. join tab (map (\<lambda>j. str_of_float py (mx0 ! i ! j))
                                                    [0..<len_species s])) [0..<n_sims s])"
    using mx write_matrix_eq [OF fm] by (simp add: files)
  have 8: "right_side files =
          join newline (map (\<lambda>rxn. join tab (map (\<lambda>j. str_nat (count_list (products rxn) j))
                                                  [0..<len_species s]))
                            (reactions (model s)))"
    by (simp add: files write_side_eq)
  have 9: "f_rtol files = str_of_float py (rtol s)"
    by (simp add: files)
  have 10: "time_max files = str_of_float py (last (tspan s))"
    using tm by (auto simp: files write_time_max_def split: if_splits)
  have 11: "t_vector files = concat (map (\<lambda>t. str_of_float py t @ newline) (tspan s))"
    by (simp add: files write_t_vector_eq)
  from 1 2 3 4 5 6 7 8 9 10 11 show ?thesis
    by (intro conjI)
qed

theorem input_files_layout_witness:
  "create_input_files example_python example_sim = Inr (example_files, [1])
   \<and> atol_vector example_files = join newline [''1e-08'', ''1e-08'', ''1e-08'']
   \<and> f_max_steps example_files = ''20000''
   \<and> modelkind example_files = ''deterministic''
   \<and> time_max example_files = ''1.0''
   \<and> t_vector example_files = ''0.0'' @ newline @ ''1.0'' @ newline"
proof -
  note T = input_files_layout [OF example_input_files]
  have l: "len_species example_sim = 3"
    by (simp add: len_species_def example_sim_def example_model_def)
  have r: "replicate 3 (str_of_float example_python (atol example_sim)) = [''1e-08'', ''1e-08'', ''1e-08'']"
    by (simp add: example_python_def example_sim_def eval_nat_numeral)
  from T l r have a: "atol_vector example_files = join newline [''1e-08'', ''1e-08'', ''1e-08'']"
    by simp
  from T have b: "f_max_steps example_files = ''20000''"
    by (simp add: example_small_files)
  from T have c: "modelkind example_files = ''deterministic''"
    by blast
  from T have "time_max example_files = str_of_float example_python (last (tspan example_sim))"
    by blast
  then have d: "time_max example_files = ''1.0''"
    by (simp add: example_python_def example_sim_def)
  from T have "t_vector example_files
      = concat (map (\<lambda>t. str_of_float example_python t @ newline) (tspan example_sim))"
    by blast
  then have e: "t_vector example_files = ''0.0'' @ newline @ ''1.0'' @ newline"
    by (simp add: example_python_def example_sim_def)
  from example_input_files a b c d e show ?thesis by blast
qed

text \<open>
  The claim as stated fails for \<open>t_vector\<close>: for the time points 0 and 1 the file is
  not the two rows joined by a newline, it ends with a newline.
\<close>

theorem input_files_layout_counterexample:
  "create_input_files example_python example_sim = Inr (example_files, [1])
   \<and> t_vector example_files = join newline [''0.0'', ''1.0''] @ newline
   \<and> t_vector example_files \<noteq> join newline [''0.0'', ''1.0'']
   \<and> last (t_vector example_files) = CHR 0x0A"
  using example_input_files by (simp add: example_files_def newline_def)

subsection \<open>Volume scaling\<close>

lemma scatter_Cons: "scatter (k # idx) (v # vals) row = scatter idx vals (row[k := v])"
  by (simp add: scatter_def)

lemma length_scatter: "length (scatter idx vals row) = length row"
proof (induction idx arbitrary: vals row)
  case Nil
  then show ?case by (simp add: scatter_def)
next
  case (Cons k idx)
  show ?case
  proof (cases vals)
    case Nil
    then show ?thesis by (simp add: scatter_def)
  next
    case (Cons v vs)
    with Cons.IH [of vs "row[k := v]"] show ?thesis
      by (simp add: scatter_Cons)
  qed
qed

lemma scatter_outside: "j \<notin> set idx \<Longrightarrow> scatter idx vals row ! j = row ! j"
proof (induction idx arbitrary: vals row)
  case Nil
  then show ?case by (simp add: scatter_def)
next
  case (Cons k idx)
  show ?case
  proof (cases vals)
    case Nil
    then show ?thesis by (simp add: scatter_def)
  next
    case (Cons v vs)
    with Cons.prems Cons.IH [of vs "row[k := v]"] show ?thesis
      by (simp add: scatter_Cons)
  qed
qed

lemma scatter_inside:
  assumes "distinct idx" and "length vals = length idx" and "\<forall>k \<in> set idx. k < length row"
    and "i < length idx"
  shows "scatter idx vals row ! (idx ! i) = vals ! i"
  using assms
proof (induction idx arbitrary: vals row i)
  case Nil
  then show ?case by simp
next
  case (Cons k idx)
  then obtain v vs where vals: "vals = v # vs"
    by (cases vals) auto
  show ?case
  proof (cases i)
    case 0
    from Cons.prems(1) have "k \<notin> set idx" by simp
    from scatter_outside [OF this, of vs "row[k := v]"] Cons.prems(3) 0 vals show ?thesis
      by (simp add: scatter_Cons)
  next
    case (Suc n)
    with Cons.prems vals Cons.IH [of vs "row[k := v]" n] show ?thesis
      by (simp add: scatter_Cons)
  qed
qed

lemma gather_scatter:
  assumes "distinct idx" and "length vals = length idx" and "\<forall>k \<in> set idx. k < length row"
  shows "gather idx (scatter idx vals row) = vals"
proof (rule nth_equalityI)
  show "length (gather idx (scatter idx vals row)) = length vals"
    using assms(2) by (simp add: gather_def)
next
  fix i
  assume "i < length (gather idx (scatter idx vals row))"
  then have i: "i < length idx" by (simp add: gather_def)
  with scatter_inside [OF assms i] show "gather idx (scatter idx vals row) ! i = vals ! i"
    by (simp add: gather_def)
qed

lemma store_row_selected:
  assumes "distinct out" and "\<forall>k \<in> set out. k < length row" and "j \<in> set out"
  shows "store_row (Some nv) out (map f out) row ! j = Some (f j * nv)"
proof -
  from assms(3) obtain i where i: "i < length out" and j: "out ! i = j"
    by (auto simp: in_set_conv_nth)
  let ?row = "scatter out (map Some (map f out)) row"
  have g: "gather out ?row = map Some (map f out)"
    using assms(1,2) by (intro gather_scatter) simp_all
  have l: "\<forall>k \<in> set out. k < length ?row"
    using assms(2) by (simp add: length_scatter)
  have "store_row (Some nv) out (map f out) row
        = scatter out (map (map_option (\<lambda>x. x * nv)) (map Some (map f out))) ?row"
    by (simp only: store_row_def Let_def g option.case)
  also have "\<dots> ! (out ! i) = map (map_option (\<lambda>x. x * nv)) (map Some (map f out)) ! i"
    using assms(1) l i by (intro scatter_inside) simp_all
  finally show ?thesis using i j by simp
qed

lemma store_row_unselected:
  "j \<notin> set out \<Longrightarrow> store_row scale out vals row ! j = row ! j"
  by (cases scale) (simp_all add: store_row_def Let_def scatter_outside)

lemma scaled_initials_cell:
  assumes "vol_scale s = Some nv" and "scaled_initials s = Inr mx0"
    and "i < length (initials s)" and "j < length (initials s ! i)"
  shows "mx0 ! i ! j = (if first_source (species (model s)) 0 = Some j then 1
                        else initials s ! i ! j / nv)"
proof (cases "first_source (species (model s)) 0")
  case None
  with assms(1,2) have "mx0 = map (map (\<lambda>x. x / nv)) (initials s)"
    by (simp add: scaled_initials_def Let_def)
  with assms(3,4) None show ?thesis
    by simp
next
  case (Some k)
  with assms(1,2) have m: "mx0 = map (\<lambda>row. row[k := 1]) (map (map (\<lambda>x. x / nv)) (initials s))"
    by (auto simp: scaled_initials_def Let_def set_column_def split: if_splits)
  with assms(3,4) Some show ?thesis
    by (auto simp: nth_list_update)
qed

subsection \<open>The small network, run\<close>

lemma example_world_path:
  "get_cupsoda_path (host example_world) None
   = (Inr ''/usr/local/share/cupSODA/cupSODA'', Some ''/usr/local/share/cupSODA/cupSODA'')"
  by (simp add: get_cupsoda_path_def cached_path_def check_bin_dir_def example_world_def
      standard_install_def path_var_def path_join_def bin_dirs_def)

lemma example_blocks:
  "get_nblocks (n_blocks example_sim) (cuda_device example_world) (len_species example_sim)
     (length (param_values example_sim)) = Inr 1"
  by (simp add: get_nblocks_def threads_per_block_def example_sim_def example_world_def
      ceiling_eq_iff)

lemma example_memory: "memory_usage_code example_sim = Inr ''2''"
  by (simp add: memory_usage_code_def memory_options_def example_sim_def)

lemma example_store:
  "store_data example_sim [Suc 0] [[0, 2], [1, 3]]
   = Inr ([0, 1], [[None, Some (4 * N_A), None], [None, Some (6 * N_A), None]])"
  by (simp add: store_data_def len_tspan_def len_species_def example_sim_def example_model_def
      broadcast_def store_row_def scatter_def gather_def vol_scale_def Let_def)

lemma str_nat_0: "str_nat 0 = ''0''"
  by (simp add: str_nat.simps digit_char_def)

lemma example_listing:
  "filter (re_match example_python (prefix example_sim))
     (listdir (solver_output example_world) ''/tmp/example_x/OUTPUT'') = [''example_0'']"
  by (simp add: example_python_def example_sim_def example_world_def)

lemma example_is_file: "isfile (host example_world) ''/tmp/example_x/OUTPUT/example_0''"
  by (simp add: example_world_def standard_install_def)

lemma example_test_pandas:
  "test_pandas (solver_output example_world) ''/tmp/example_x/OUTPUT/example_0''
   = Inr ([[0, 2], [1, 3]], False)"
  by (simp add: test_pandas_def load_with_openfile_def np_array_def rectangular_def
      example_world_def)

lemma example_load_files:
  "load_files (host example_world) (solver_output example_world) example_sim [Suc 0]
     ''/tmp/example_x/OUTPUT/example'' [0]
     \<lparr>tout = [], trajectories = [], use_pandas = False, opened = []\<rparr>
   = (None, \<lparr>tout = [[0, 1]],
             trajectories = [[[None, Some (4 * N_A), None], [None, Some (6 * N_A), None]]],
             use_pandas = False, opened = [''/tmp/example_x/OUTPUT/example_0'']\<rparr>)"
  by (simp add: Let_def str_nat_0 example_is_file example_test_pandas example_store)

lemma example_indir_prefix:
  "path_join ''/tmp/example_x/OUTPUT'' (prefix example_sim) = ''/tmp/example_x/OUTPUT/example''"
  by (simp add: path_join_def example_sim_def)

lemma example_load:
  "load_trajectories example_python (host example_world) (solver_output example_world)
     example_sim [Suc 0] ''/tmp/example_x/OUTPUT''
   = (Inr ([[0, 1]], [[[None, Some (4 * N_A), None], [None, Some (6 * N_A), None]]]),
      [''/tmp/example_x/OUTPUT/example_0''])"
proof -
  have n: "length (param_values example_sim) = 1"
    by (simp add: example_sim_def)
  show ?thesis
    unfolding load_trajectories_def Let_def example_listing example_indir_prefix n
    by (simp add: example_load_files del: load_files.simps)
qed

lemma example_command_returncode:
  "returncode (popen example_world command) = 0"
  by (simp add: example_world_def)

lemma example_mkdtemp: "mkdtemp example_world = ''/tmp/example_x''"
  by (simp add: example_world_def)

lemma example_outfiles_dir: "path_join ''/tmp/example_x'' ''OUTPUT'' = ''/tmp/example_x/OUTPUT''"
  by (simp add: path_join_def)

lemma example_cleanup: "cleanup example_sim"
  by (simp add: example_sim_def)

lemma example_run:
  "run example_python example_world example_sim None
   = \<lparr>result = Inr ([[0, 1]], [[[None, Some (4 * N_A), None], [None, Some (6 * N_A), None]]]),
      cupsoda_path = Some ''/usr/local/share/cupSODA/cupSODA'',
      removed = [''/tmp/example_x''],
      files_opened = [''/tmp/example_x/OUTPUT/example_0'']\<rparr>"
  unfolding run_def Let_def example_world_path example_blocks example_input_files
    example_memory example_mkdtemp example_outfiles_dir
  by (simp add: example_command_returncode example_load example_cleanup)

subsection \<open>Volume round trip\<close>

lemma N_A_pos: "0 < N_A"
  by (simp add: N_A_def)

text \<open>
  Claim C1, as the code has it. For a volume \<open>v > 0\<close>, a simulation row \<open>i\<close> and a
  species column \<open>j\<close> that is selected for output and is not the column of the first
  species named \<open>__source()\<close>: the cell written to \<open>MX_0\<close> is the initial value divided
  by \<open>N_A * v\<close>, and storing that cell as the solver's output for its species gives back
  the initial value. Arithmetic is exact here, so the round trip is an equality.
\<close>

theorem volume_round_trip:
  assumes "vol s = Some v" and "0 < v" and "scaled_initials s = Inr mx0"
    and "i < length (initials s)" and "j < length (initials s ! i)"
    and "first_source (species (model s)) 0 \<noteq> Some j"
    and "distinct out" and "j \<in> set out" and "\<forall>k \<in> set out. k < length row"
  shows "mx0 ! i ! j = initials s ! i ! j / (N_A * v)
    \<and> store_row (vol_scale s) out (map (\<lambda>k. mx0 ! i ! k) out) row ! j = Some (initials s ! i ! j)"
proof -
  from assms(2) N_A_pos have nz: "N_A * v \<noteq> 0"
    by simp
  from assms(1,2) have vs: "vol_scale s = Some (N_A * v)"
    by (simp add: vol_scale_def)
  from scaled_initials_cell [OF vs assms(3,4,5)] assms(6)
  have cell: "mx0 ! i ! j = initials s ! i ! j / (N_A * v)"
    by simp
  from store_row_selected [OF assms(7,9,8), of "N_A * v" "\<lambda>k. mx0 ! i ! k"]
  have "store_row (vol_scale s) out (map (\<lambda>k. mx0 ! i ! k) out) row ! j
        = Some (mx0 ! i ! j * (N_A * v))"
    by (simp only: vs)
  with cell nz show ?thesis
    by simp
qed

lemma example_full_scaled: "scaled_initials example_full = Inr [[1, 4 / N_A, 0]]"
  by (simp add: example_full_def scaled_initials_def example_sim_def example_model_def
      vol_scale_def set_column_def)

theorem volume_round_trip_witness:
  "vol example_sim = Some 2
   \<and> scaled_initials example_sim = Inr [[1, 4 / N_A, 0]]
   \<and> initials example_sim ! 0 ! 1 = 8
   \<and> [[1, 4 / N_A, 0]] ! 0 ! 1 = initials example_sim ! 0 ! 1 / (N_A * 2)
   \<and> store_row (vol_scale example_sim) [1] (map (\<lambda>k. [[1, 4 / N_A, 0]] ! 0 ! k) [1])
        [None, None, None] ! 1 = Some 8"
proof -
  have v: "vol example_sim = Some 2"
    by (simp add: example_sim_def)
  have p: "(0::real) < 2"
    by simp
  have i: "0 < length (initials example_sim)"
    by (simp add: example_sim_def)
  have j: "1 < length (initials example_sim ! 0)"
    by (simp add: example_sim_def)
  have f: "first_source (species (model example_sim)) 0 \<noteq> Some 1"
    by (simp add: example_sim_def example_model_def)
  have d: "distinct [1::nat]"
    by simp
  have m: "(1::nat) \<in> set [1]"
    by simp
  have r: "\<forall>k \<in> set [1::nat]. k < length [None, None, None :: real option]"
    by simp
  have x: "initials example_sim ! 0 ! 1 = 8"
    by (simp add: example_sim_def)
  from volume_round_trip [OF v p example_scaled_initials i j f d m r] v example_scaled_initials x
  show ?thesis by simp
qed

text \<open>
  The claim as stated fails in the column of the source pseudo-species: with volume 2 and
  every species selected, the initial value 5 of \<open>__source()\<close> is written as 1 and
  read back as \<open>2 * N_A\<close>.
\<close>

theorem volume_round_trip_counterexample:
  "vol example_full = Some 2
   \<and> out_species example_full = Inr [0, 1, 2]
   \<and> initials example_full = [[5, 8, 0]]
   \<and> scaled_initials example_full = Inr [[1, 4 / N_A, 0]]
   \<and> store_row (vol_scale example_full) [0, 1, 2] [1, 4 / N_A, 0] [None, None, None]
       = [Some (2 * N_A), Some 8, Some 0]
   \<and> 10 ^ 23 < 2 * N_A - 5"
proof -
  have a: "vol example_full = Some 2" "initials example_full = [[5, 8, 0]]"
    by (simp_all add: example_full_def example_sim_def)
  have b: "out_species example_full = Inr [0, 1, 2]"
    by (simp add: out_species_def example_full_def example_sim_def example_model_def
        len_species_def eval_nat_numeral)
  have c: "store_row (vol_scale example_full) [0, 1, 2] [1, 4 / N_A, 0] [None, None, None]
       = [Some (2 * N_A), Some 8, Some 0]"
    using N_A_pos
    by (simp add: store_row_def scatter_def gather_def vol_scale_def example_full_def
        example_sim_def Let_def)
  have d: "10 ^ 23 < 2 * N_A - 5"
    by (simp add: N_A_def)
  from a b c d example_full_scaled show ?thesis by blast
qed

subsection \<open>The run, step by step\<close>

lemma run_launched:
  assumes "get_cupsoda_path (host w) g = (Inr bin_path, g')"
    and "get_nblocks (n_blocks s) (cuda_device w) (len_species s) (length (param_values s)) = Inr blocks"
    and "create_input_files py s = Inr (files, sel)"
    and "memory_usage_code s = Inr memory"
  shows "run py w s g =
     (if returncode (popen w (command_line s bin_path (mkdtemp w) blocks memory)) \<noteq> 0 then
        \<lparr>result = Inl (solver_error (popen w (command_line s bin_path (mkdtemp w) blocks memory))),
         cupsoda_path = g', removed = [], files_opened = []\<rparr>
      else
        (case load_trajectories py (host w) (solver_output w) s sel (path_join (mkdtemp w) ''OUTPUT'') of
           (Inl e, seen) \<Rightarrow>
             \<lparr>result = Inl e, cupsoda_path = g', removed = [], files_opened = seen\<rparr>
         | (Inr loaded, seen) \<Rightarrow>
             \<lparr>result = Inr loaded, cupsoda_path = g',
              removed = (if cleanup s then [mkdtemp w] else []), files_opened = seen\<rparr>))"
  using assms by (simp add: run_def Let_def)



lemma starts_with_append: "starts_with n (n @ b)"
  by (induction n) simp_all

lemma contains_suffix: "contains n (a @ n)"
proof (induction a)
  case Nil
  show ?case
    using starts_with_append [of n "[]"] by (cases n) simp_all
next
  case (Cons c a)
  then show ?case by simp
qed

lemma world_variants:
  "host boom_world = host example_world" "cuda_device boom_world = cuda_device example_world"
  "mkdtemp boom_world = mkdtemp example_world"
  "host fatal_world = host example_world" "cuda_device fatal_world = cuda_device example_world"
  "mkdtemp fatal_world = mkdtemp example_world"
  "host two_outputs_world = host example_world"
  "cuda_device two_outputs_world = cuda_device example_world"
  "mkdtemp two_outputs_world = mkdtemp example_world"
  "popen two_outputs_world = popen example_world"
  by (simp_all add: boom_world_def fatal_world_def two_outputs_world_def)

lemma boom_process:
  "popen boom_world command = \<lparr>returncode = 1, p_out = [], p_err = ''boom''\<rparr>"
  by (simp add: boom_world_def)

lemma fatal_process:
  "popen fatal_world command = \<lparr>returncode = 1, p_out = ''fatal'', p_err = []\<rparr>"
  by (simp add: fatal_world_def)

lemma boom_error: "solver_error \<lparr>returncode = 1, p_out = [], p_err = ''boom''\<rparr>
                   = SimulatorException (newline @ ''boom'')"
  by (simp add: solver_error_def rstrip_def whitespace_def)

lemma fatal_error: "solver_error \<lparr>returncode = 1, p_out = ''fatal'', p_err = []\<rparr>
                    = SimulatorException (''f'' @ newline)"
  by (simp add: solver_error_def rstrip_def whitespace_def)

lemma boom_run:
  "run example_python boom_world example_sim None
   = \<lparr>result = Inl (SimulatorException (newline @ ''boom'')),
      cupsoda_path = Some ''/usr/local/share/cupSODA/cupSODA'', removed = [], files_opened = []\<rparr>"
  using run_launched [of boom_world None _ _ example_sim _ example_python,
      unfolded world_variants, OF example_world_path example_blocks example_input_files example_memory]
  by (simp add: world_variants boom_process boom_error)

lemma fatal_run:
  "run example_python fatal_world example_sim None
   = \<lparr>result = Inl (SimulatorException (''f'' @ newline)),
      cupsoda_path = Some ''/usr/local/share/cupSODA/cupSODA'', removed = [], files_opened = []\<rparr>"
  using run_launched [of fatal_world None _ _ example_sim _ example_python,
      unfolded world_variants, OF example_world_path example_blocks example_input_files example_memory]
  by (simp add: world_variants fatal_process fatal_error)

lemma two_outputs_listing:
  "filter (re_match example_python (prefix example_sim))
     (listdir (solver_output two_outputs_world) (path_join (mkdtemp two_outputs_world) ''OUTPUT''))
   = [''example_0'', ''example_1'']"
  by (simp add: two_outputs_world_def example_world_def example_python_def example_sim_def
      path_join_def)

lemma two_outputs_load:
  "load_trajectories example_python (host two_outputs_world) (solver_output two_outputs_world)
     example_sim [1] (path_join (mkdtemp two_outputs_world) ''OUTPUT'')
   = (Inl (SimulatorException (count_mismatch_msg 2 1)), [])"
proof -
  have n: "length (param_values example_sim) = 1"
    by (simp add: example_sim_def)
  show ?thesis
    unfolding load_trajectories_def Let_def two_outputs_listing n
    by (simp add: numeral_2_eq_2)
qed

lemma two_outputs_run:
  "run example_python two_outputs_world example_sim None
   = \<lparr>result = Inl (SimulatorException (count_mismatch_msg 2 1)),
      cupsoda_path = Some ''/usr/local/share/cupSODA/cupSODA'', removed = [], files_opened = []\<rparr>"
  using run_launched [of two_outputs_world None _ _ example_sim _ example_python,
      unfolded world_variants, OF example_world_path example_blocks example_input_files example_memory]
    two_outputs_load
  by (simp add: world_variants example_command_returncode)

subsection \<open>Missing output files\<close>



subsection \<open>A failing solver\<close>

text \<open>
  What holds of a failing solver: when the solver was launched and exits with a code other
  than zero, \<open>run\<close> raises \<open>SimulatorException\<close> (the specification's
  \<open>SolverExecutionError\<close>) and returns no result, and the message ends with the captured
  standard error without its trailing white space.
\<close>

lemma solver_failure_raises:
  assumes "get_cupsoda_path (host w) g = (Inr bin_path, g')"
    and "get_nblocks (n_blocks s) (cuda_device w) (len_species s) (length (param_values s)) = Inr blocks"
    and "create_input_files py s = Inr (files, sel)"
    and "memory_usage_code s = Inr memory"
    and "p = popen w (command_line s bin_path (mkdtemp w) blocks memory)"
    and "returncode p \<noteq> 0"
  shows "\<exists>msg. result (run py w s g) = Inl (SimulatorException msg)
           \<and> contains (rstrip whitespace (p_err p)) msg"
proof -
  from run_launched [OF assms(1-4)] assms(5,6)
  have "result (run py w s g) = Inl (solver_error p)"
    by simp
  moreover have "contains (rstrip whitespace (p_err p))
         ((rstrip ''at line'' (p_out p) @ newline) @ rstrip whitespace (p_err p))"
    by (rule contains_suffix)
  ultimately show ?thesis
    by (simp add: solver_error_def)
qed

lemma boom_scenario:
  "result (run example_python boom_world example_sim None)
     = Inl (SimulatorException (newline @ ''boom''))
   \<and> contains ''boom'' (newline @ ''boom'')"
  using contains_suffix [of "''boom''" newline] by (simp add: boom_run)

text \<open>
  Claim C6. The message does not carry the captured standard output. The code builds it
  from \<open>p_out.rstrip("at line")\<close>, which removes every trailing character that occurs
  in the text \<open>at line\<close>, not that suffix: a solver that prints \<open>fatal\<close> and exits with
  code 1 gives the message \<open>f\<close> and a newline, which does not contain \<open>fatal\<close>, and
  the output \<open>too small at line\<close> is cut down to \<open>too sm\<close>.
\<close>

theorem solver_failure_loses_stdout:
  "popen fatal_world (command_line example_sim ''/usr/local/share/cupSODA/cupSODA''
       (mkdtemp fatal_world) 1 ''2'') = \<lparr>returncode = 1, p_out = ''fatal'', p_err = []\<rparr>
   \<and> result (run example_python fatal_world example_sim None)
       = Inl (SimulatorException (''f'' @ newline))
   \<and> \<not> contains ''fatal'' (''f'' @ newline)
   \<and> rstrip ''at line'' ''too small at line'' = ''too sm''"
  by (simp add: fatal_process fatal_run newline_def rstrip_def)

subsection \<open>Cleanup\<close>

text \<open>
  Claim C9, as the code has it. \<open>shutil.rmtree\<close> is called on the working directory
  exactly when \<open>run\<close> returns a result and the cleanup option is on. When \<open>run\<close> raises
  (no solver binary, a failing solver, missing output, an output file that does not
  decode), nothing is removed.
\<close>

theorem cleanup_after_run:
  "removed (run py w s g) =
     (case result (run py w s g) of
        Inl e \<Rightarrow> []
      | Inr loaded \<Rightarrow> if cleanup s then [mkdtemp w] else [])"
  by (simp add: run_def Let_def split: prod.splits sum.splits)

theorem cleanup_after_run_witness:
  "cleanup example_sim
   \<and> result (run example_python example_world example_sim None)
       = Inr ([[0, 1]], [[[None, Some (4 * N_A), None], [None, Some (6 * N_A), None]]])
   \<and> removed (run example_python example_world example_sim None) = [''/tmp/example_x'']
   \<and> result (run example_python two_outputs_world example_sim None)
       = Inl (SimulatorException (count_mismatch_msg 2 1))
   \<and> removed (run example_python two_outputs_world example_sim None) = []"
proof -
  have r: "result (run example_python example_world example_sim None)
       = Inr ([[0, 1]], [[[None, Some (4 * N_A), None], [None, Some (6 * N_A), None]]])"
    by (simp add: example_run)
  have f: "result (run example_python two_outputs_world example_sim None)
       = Inl (SimulatorException (count_mismatch_msg 2 1))"
    by (simp add: two_outputs_run)
  from cleanup_after_run [of example_python example_world example_sim None] r
  have a: "removed (run example_python example_world example_sim None) = [''/tmp/example_x'']"
    by (simp add: example_cleanup example_mkdtemp)
  from cleanup_after_run [of example_python two_outputs_world example_sim None] f
  have b: "removed (run example_python two_outputs_world example_sim None) = []"
    by simp
  from example_cleanup r a f b show ?thesis by blast
qed

text \<open>
  The claim as stated fails on a failure path: with the cleanup option on and a solver
  that exits with code 1, \<open>run\<close> raises and removes nothing.
\<close>

theorem cleanup_after_run_counterexample:
  "cleanup example_sim
   \<and> result (run example_python boom_world example_sim None)
       = Inl (SimulatorException (newline @ ''boom''))
   \<and> removed (run example_python boom_world example_sim None) = []"
  by (simp add: example_cleanup boom_run)

end
